theory Spec2Isabelle
  imports Main
begin

section \<open>The world the bot runs in\<close>

text \<open>
  The bot (bot.py) and its media pipeline (video_processor.py) are effectful Python: they
  touch the file system, start an external media tool, and talk to a messaging gateway.
  The embedding passes the world explicitly.  Every library call that can raise is a
  branch: an oracle of the environment decides whether the call fails, and the call is
  recorded in a trace whether it fails or not.  Handlers run one at a time (the
  interleaving of coroutines at await points is outside this model).
\<close>

type_synonym path = string

text \<open>
  The regular files: an association list from (normalised) path strings to contents.  The
  operations below do not rely on the keys being distinct.  Directories are kept apart,
  in the world.
\<close>

type_synonym filesys = "(path \<times> string) list"

datatype event =
    Reply_text string            \<comment> \<open>message.reply_text(text)\<close>
  | Edit_text string             \<comment> \<open>status_message.edit_text(text)\<close>
  | Reply_video path string      \<comment> \<open>message.reply_video(video=open(path), caption)\<close>
  | Get_file                     \<comment> \<open>message.video.get_file()\<close>
  | Download path                \<comment> \<open>telegram_file.download_to_drive(path)\<close>
  | Mkdir path                   \<comment> \<open>Path.mkdir(exist_ok=True)\<close>
  | Open_w path                  \<comment> \<open>open(path, "w")\<close>
  | Open_r path                  \<comment> \<open>open(path, "rb")\<close>
  | Remove path                  \<comment> \<open>os.remove(path), Path.unlink()\<close>
  | Exec "string list"           \<comment> \<open>asyncio.create_subprocess_exec(*cmd)\<close>
  | Log_info string              \<comment> \<open>logger.info(text)\<close>
  | Log_error string             \<comment> \<open>logger.error(text)\<close>

text \<open>
  Every exception the code meets is an instance of Python's \<open>Exception\<close>; the handlers
  only ever catch that class and format the exception with \<open>str\<close>, so an exception is
  its message.
\<close>

datatype exn = Exception string

fun str_exn :: "exn \<Rightarrow> string" where
  "str_exn (Exception m) = m"

record env =
  fails :: "event \<Rightarrow> bool"
    \<comment> \<open>does this library call raise?\<close>
  errmsg :: "event \<Rightarrow> string"
    \<comment> \<open>the message of the exception it raises\<close>
  ffmpeg :: "string list \<Rightarrow> filesys \<Rightarrow> int \<times> (exn + string) \<times> filesys"
    \<comment> \<open>the external tool: return code, what \<open>stderr.decode()\<close> gives (the text, or the
        exception it raises on bytes that are not UTF-8), file system it leaves\<close>
  abspath :: "path \<Rightarrow> path"
    \<comment> \<open>os.path.abspath\<close>
  uuid4 :: "nat \<Rightarrow> string"
    \<comment> \<open>str(uuid.uuid4()) of the n-th draw\<close>

record world =
  fs :: filesys
  dirs :: "path list"            \<comment> \<open>directories that exist\<close>
  trace :: "event list"          \<comment> \<open>library calls made so far, oldest first\<close>
  uuids :: nat                   \<comment> \<open>identifiers drawn so far\<close>

subsection \<open>File-system primitives\<close>

definition file_exists :: "filesys \<Rightarrow> path \<Rightarrow> bool" where
  "file_exists f p = (p \<in> set (map fst f))"

definition fs_remove :: "filesys \<Rightarrow> path \<Rightarrow> filesys" where
  "fs_remove f p = filter (\<lambda>kv. fst kv \<noteq> p) f"

definition fs_write :: "filesys \<Rightarrow> path \<Rightarrow> string \<Rightarrow> filesys" where
  "fs_write f p c = (p, c) # fs_remove f p"

definition fs_read :: "filesys \<Rightarrow> path \<Rightarrow> string option" where
  "fs_read f p = map_of f p"

text \<open>\<open>in_dir d p\<close>: \<open>p\<close> is \<open>d/name\<close> for a single, non-empty path component \<open>name\<close>.\<close>

definition in_dir :: "path \<Rightarrow> path \<Rightarrow> bool" where
  "in_dir d p =
     (take (length d) p = d \<and>
      (case drop (length d) p of
         [] \<Rightarrow> False
       | c # name \<Rightarrow> c = CHR ''/'' \<and> name \<noteq> [] \<and> CHR ''/'' \<notin> set name))"

text \<open>\<open>os.path.exists(p)\<close>, \<open>Path.exists()\<close>: true of a regular file and of a directory.\<close>

definition path_exists :: "world \<Rightarrow> path \<Rightarrow> bool" where
  "path_exists w p = (file_exists (fs w) p \<or> p \<in> set (dirs w))"

text \<open>
  \<open>Path.glob("*")\<close>: the entries directly inside a directory, regular files and
  sub-directories alike.
\<close>

definition glob_star :: "world \<Rightarrow> path \<Rightarrow> path list" where
  "glob_star w d = filter (in_dir d) (map fst (fs w) @ dirs w)"

subsection \<open>Library calls\<close>

text \<open>A call is recorded in the trace, then the oracle decides whether it raises.\<close>

definition act :: "env \<Rightarrow> event \<Rightarrow> world \<Rightarrow> (exn + unit) \<times> world" where
  "act e ev w =
     (let w' = w\<lparr>trace := trace w @ [ev]\<rparr>
      in if fails e ev then (Inl (Exception (errmsg e ev)), w') else (Inr (), w'))"

definition log_info :: "string \<Rightarrow> world \<Rightarrow> world" where
  "log_info m w = w\<lparr>trace := trace w @ [Log_info m]\<rparr>"

definition log_error :: "string \<Rightarrow> world \<Rightarrow> world" where
  "log_error m w = w\<lparr>trace := trace w @ [Log_error m]\<rparr>"

text \<open>
  \<open>os.remove(path)\<close> and \<open>Path.unlink()\<close>: raise when the system refuses, raise
  when the path is a directory or names nothing, delete the regular file otherwise.
\<close>

definition os_remove :: "env \<Rightarrow> path \<Rightarrow> world \<Rightarrow> (exn + unit) \<times> world" where
  "os_remove e p w =
     (case act e (Remove p) w of
        (Inl x, w1) \<Rightarrow> (Inl x, w1)
      | (Inr _, w1) \<Rightarrow>
          if file_exists (fs w1) p then (Inr (), w1\<lparr>fs := fs_remove (fs w1) p\<rparr>)
          else if p \<in> set (dirs w1) then (Inl (Exception ''Is a directory''), w1)
          else (Inl (Exception ''No such file or directory''), w1))"

text \<open>\<open>Path.mkdir(exist_ok=True)\<close>\<close>

definition mkdir :: "env \<Rightarrow> path \<Rightarrow> world \<Rightarrow> (exn + unit) \<times> world" where
  "mkdir e d w =
     (case act e (Mkdir d) w of
        (Inl x, w1) \<Rightarrow> (Inl x, w1)
      | (Inr _, w1) \<Rightarrow>
          (Inr (), if d \<in> set (dirs w1) then w1 else w1\<lparr>dirs := d # dirs w1\<rparr>))"


subsection \<open>Formatting integers: Python's \<open>str\<close>\<close>

definition digit_char :: "nat \<Rightarrow> char" where
  "digit_char d = ''0123456789'' ! d"

function str_nat :: "nat \<Rightarrow> string" where
  "str_nat n =
     (if n < 10 then [digit_char n]
      else str_nat (n div 10) @ [digit_char (n mod 10)])"
  by pat_completeness auto
termination
  by (relation "measure (\<lambda>n. n)") auto

declare str_nat.simps [simp del]

definition str_int :: "int \<Rightarrow> string" where
  "str_int i = (if i < 0 then CHR ''-'' # str_nat (nat (- i)) else str_nat (nat i))"

section \<open>video_processor.py\<close>

definition TEMP_DIR :: path where
  "TEMP_DIR = ''temp''"

definition WATERMARK_TEXT :: string where
  "WATERMARK_TEXT = ''Insta / Telegram - @supplywalah''"

definition EMAIL_TEXT :: string where
  "EMAIL_TEXT = ''Supplywalah@proton.me''"

definition FONT_PATH :: string where
  "FONT_PATH = ''/usr/share/fonts/truetype/dejavu/DejaVuSans-Bold.ttf''"

definition FONT_SIZE :: nat where
  "FONT_SIZE = 20"

definition FONT_COLOR :: string where
  "FONT_COLOR = ''white''"

definition POSITION :: string where
  "POSITION = ''bottom-right''"

definition user_dir_of :: "int \<Rightarrow> path" where
  "user_dir_of user_id = TEMP_DIR @ ''/'' @ str_int user_id"

subsection \<open>clean_user_videos\<close>

text \<open>
  The first loop: \<open>for path in video_paths: if os.path.exists(path): os.remove(path)\<close>.
  There is no handler inside the loop: a raise leaves it.
\<close>

fun remove_paths :: "env \<Rightarrow> path list \<Rightarrow> world \<Rightarrow> (exn + unit) \<times> world" where
  "remove_paths e [] w = (Inr (), w)"
| "remove_paths e (p # ps) w =
     (if path_exists w p then
        (case os_remove e p w of
           (Inl x, w1) \<Rightarrow> (Inl x, w1)
         | (Inr _, w1) \<Rightarrow> remove_paths e ps (log_info (''Removed video file: '' @ p) w1))
      else remove_paths e ps w)"

text \<open>
  The sweep: \<open>for file in user_dir.glob("*"): try: file.unlink() ... except: pass\<close>.
\<close>

fun sweep :: "env \<Rightarrow> path list \<Rightarrow> world \<Rightarrow> world" where
  "sweep e [] w = w"
| "sweep e (p # ps) w =
     (case os_remove e p w of
        (Inl x, w1) \<Rightarrow> sweep e ps w1
      | (Inr _, w1) \<Rightarrow> sweep e ps (log_info (''Removed temporary file: '' @ p) w1))"

text \<open>The body of the \<open>try\<close> block.\<close>

definition clean_user_videos_try ::
  "env \<Rightarrow> int \<Rightarrow> path list \<Rightarrow> path option \<Rightarrow> world \<Rightarrow> (exn + unit) \<times> world" where
  "clean_user_videos_try e user_id video_paths result_path w =
     (case remove_paths e video_paths w of
        (Inl x, w1) \<Rightarrow> (Inl x, w1)
      | (Inr _, w1) \<Rightarrow>
          (case (case result_path of
                   None \<Rightarrow> (Inr (), w1)
                 | Some r \<Rightarrow>
                     if r \<noteq> [] \<and> path_exists w1 r then
                       (case os_remove e r w1 of
                          (Inl x, w2) \<Rightarrow> (Inl x, w2)
                        | (Inr _, w2) \<Rightarrow> (Inr (), log_info (''Removed result file: '' @ r) w2))
                     else (Inr (), w1)) of
             (Inl x, w2) \<Rightarrow> (Inl x, w2)
           | (Inr _, w2) \<Rightarrow>
               (let user_dir = user_dir_of user_id
                in if path_exists w2 user_dir
                   then (Inr (), sweep e (glob_star w2 user_dir) w2)
                   else (Inr (), w2))))"

text \<open>\<open>try: ... except Exception as e: logger.error(...)\<close>\<close>

definition clean_user_videos ::
  "env \<Rightarrow> int \<Rightarrow> path list \<Rightarrow> path option \<Rightarrow> world \<Rightarrow> (exn + unit) \<times> world" where
  "clean_user_videos e user_id video_paths result_path w =
     (case clean_user_videos_try e user_id video_paths result_path w of
        (Inl x, w1) \<Rightarrow> (Inr (), log_error (''Error cleaning up user videos: '' @ str_exn x) w1)
      | (Inr _, w1) \<Rightarrow> (Inr (), w1))"

subsection \<open>store_video\<close>


subsection \<open>apply_watermark\<close>

definition position_map :: "(string \<times> string) list" where
  "position_map =
     [(''center'', ''x=(w-text_w)/2:y=(h-text_h)/2''),
      (''bottom'', ''x=(w-text_w)/2:y=h-th-10''),
      (''bottom-right'', ''x=w-tw-10:y=h-th-10''),
      (''top-left'', ''x=10:y=10''),
      (''top-right'', ''x=w-tw-10:y=10'')]"

text \<open>\<open>position_map.get(position, "x=w-tw-10:y=h-th-10")\<close>\<close>

definition position_coords :: "string \<Rightarrow> string" where
  "position_coords position =
     (case map_of position_map position of
        Some c \<Rightarrow> c
      | None \<Rightarrow> ''x=w-tw-10:y=h-th-10'')"

text \<open>
  The filter string, as the two f-strings build it; the source reads the module constant
  \<open>POSITION\<close>, which is a parameter here.
\<close>

definition filter_text :: "string \<Rightarrow> string" where
  "filter_text position =
     (''drawtext=text='' @ [CHR 0x27] @ WATERMARK_TEXT @ [CHR 0x27] @ '':fontfile='' @ FONT_PATH @ '':''
        @ position_coords position @ '':fontcolor='' @ FONT_COLOR @ '':fontsize='' @ str_nat FONT_SIZE @ '':''
        @ ''shadowcolor=black:shadowx=2:shadowy=2'')
     @ ('', drawtext=text='' @ [CHR 0x27] @ EMAIL_TEXT @ [CHR 0x27] @ '':fontfile='' @ FONT_PATH @ '':''
        @ ''x=(w-text_w)/2:y=10:fontcolor='' @ FONT_COLOR @ '':fontsize='' @ str_nat FONT_SIZE @ '':''
        @ ''shadowcolor=black:shadowx=2:shadowy=2'')"

definition watermark_cmd :: "string \<Rightarrow> path \<Rightarrow> path \<Rightarrow> string list" where
  "watermark_cmd position input_path output_path =
     [''ffmpeg'', ''-i'', input_path, ''-vf'', filter_text position,
      ''-codec:a'', ''copy'', ''-y'', output_path]"

text \<open>
  Starting the tool and waiting for it: \<open>create_subprocess_exec\<close> then
  \<open>communicate\<close>.  The result is the return code and the error stream, the latter
  as \<open>stderr.decode()\<close> will find it.
\<close>

definition run_process ::
  "env \<Rightarrow> string list \<Rightarrow> world \<Rightarrow> (exn + int \<times> (exn + string)) \<times> world" where
  "run_process e cmd w =
     (case act e (Exec cmd) w of
        (Inl x, w1) \<Rightarrow> (Inl x, w1)
      | (Inr _, w1) \<Rightarrow>
          (case ffmpeg e cmd (fs w1) of
             (returncode, stderr, f) \<Rightarrow> (Inr (returncode, stderr), w1\<lparr>fs := f\<rparr>)))"

definition apply_watermark_try :: "env \<Rightarrow> string \<Rightarrow> path \<Rightarrow> path \<Rightarrow> world \<Rightarrow> (exn + unit) \<times> world" where
  "apply_watermark_try e position input_path output_path w =
     (case run_process e (watermark_cmd position input_path output_path)
             (log_info (''Applying watermark to '' @ input_path) w) of
        (Inl x, w1) \<Rightarrow> (Inl x, w1)
      | (Inr (returncode, stderr), w1) \<Rightarrow>
          if returncode \<noteq> 0 then
            (case stderr of
               Inl x \<Rightarrow> (Inl x, w1)
             | Inr text \<Rightarrow>
                 (Inl (Exception ''Failed to apply watermark''),
                  log_error (''FFmpeg watermark error: '' @ text) w1))
          else (Inr (), w1))"

text \<open>\<open>except Exception as e: logger.error(...); raise\<close>\<close>

definition apply_watermark :: "env \<Rightarrow> string \<Rightarrow> path \<Rightarrow> path \<Rightarrow> world \<Rightarrow> (exn + unit) \<times> world" where
  "apply_watermark e position input_path output_path w =
     (case apply_watermark_try e position input_path output_path w of
        (Inl x, w1) \<Rightarrow> (Inl x, log_error (''Error applying watermark: '' @ str_exn x) w1)
      | (Inr _, w1) \<Rightarrow> (Inr (), w1))"

subsection \<open>merge_videos\<close>

definition manifest_line :: "env \<Rightarrow> path \<Rightarrow> string" where
  "manifest_line e p = ''file '' @ [CHR 0x27] @ abspath e p @ [CHR 0x27] @ ''\<newline>''"

text \<open>\<open>for path in video_paths: f.write(...)\<close>: what has been written after the loop.\<close>

fun write_lines :: "env \<Rightarrow> path list \<Rightarrow> string \<Rightarrow> string" where
  "write_lines e [] written = written"
| "write_lines e (p # ps) written = write_lines e ps (written @ manifest_line e p)"

text \<open>\<open>with open(list_file, "w") as f: ...\<close>: the file is truncated, written and closed.\<close>

definition write_manifest :: "env \<Rightarrow> path \<Rightarrow> path list \<Rightarrow> world \<Rightarrow> (exn + unit) \<times> world" where
  "write_manifest e list_file video_paths w =
     (case act e (Open_w list_file) w of
        (Inl x, w1) \<Rightarrow> (Inl x, w1)
      | (Inr _, w1) \<Rightarrow>
          (Inr (), w1\<lparr>fs := fs_write (fs w1) list_file (write_lines e video_paths [])\<rparr>))"

definition merge_cmd :: "path \<Rightarrow> path \<Rightarrow> string list" where
  "merge_cmd list_file merged_path =
     [''ffmpeg'', ''-f'', ''concat'', ''-safe'', ''0'', ''-i'', list_file,
      ''-c'', ''copy'', ''-y'', merged_path]"

text \<open>The body of the \<open>try\<close> block of merge_videos.\<close>

definition merge_videos_try ::
  "env \<Rightarrow> path list \<Rightarrow> int \<Rightarrow> path \<Rightarrow> path \<Rightarrow> path \<Rightarrow> world \<Rightarrow> (exn + path) \<times> world" where
  "merge_videos_try e video_paths user_id list_file merged_path watermarked_path w =
     (case write_manifest e list_file video_paths w of
        (Inl x, w1) \<Rightarrow> (Inl x, w1)
      | (Inr _, w1) \<Rightarrow>
          (case run_process e (merge_cmd list_file merged_path)
                  (log_info (''Merging '' @ str_nat (length video_paths) @ '' videos for user ''
                             @ str_int user_id) w1) of
             (Inl x, w2) \<Rightarrow> (Inl x, w2)
           | (Inr (returncode, stderr), w2) \<Rightarrow>
               if returncode \<noteq> 0 then
                 (case stderr of
                    Inl x \<Rightarrow> (Inl x, w2)
                  | Inr text \<Rightarrow>
                      (Inl (Exception ''Failed to merge videos''),
                       log_error (''FFmpeg merge error: '' @ text) w2))
               else
                 (case apply_watermark e POSITION merged_path watermarked_path w2 of
                    (Inl x, w3) \<Rightarrow> (Inl x, w3)
                  | (Inr _, w3) \<Rightarrow> (Inr watermarked_path, w3))))"

text \<open>
  \<open>finally: if list_file.exists(): list_file.unlink()\<close>.  The block runs on every way
  out of the \<open>try\<close>; an exception raised inside it replaces the pending result.
\<close>

definition merge_videos_finally ::
  "env \<Rightarrow> path \<Rightarrow> (exn + path) \<times> world \<Rightarrow> (exn + path) \<times> world" where
  "merge_videos_finally e list_file rw =
     (case rw of
        (r, w) \<Rightarrow>
          if path_exists w list_file then
            (case os_remove e list_file w of
               (Inl x, w1) \<Rightarrow> (Inl x, w1)
             | (Inr _, w1) \<Rightarrow> (r, w1))
          else (r, w))"

text \<open>The three artifact names, drawn in this order after the directory is made.\<close>

definition list_file_of :: "env \<Rightarrow> int \<Rightarrow> nat \<Rightarrow> path" where
  "list_file_of e user_id n = user_dir_of user_id @ ''/'' @ ''list_'' @ uuid4 e n @ ''.txt''"

definition merged_path_of :: "env \<Rightarrow> int \<Rightarrow> nat \<Rightarrow> path" where
  "merged_path_of e user_id n = user_dir_of user_id @ ''/'' @ ''merged_'' @ uuid4 e (Suc n) @ ''.mp4''"

definition watermarked_path_of :: "env \<Rightarrow> int \<Rightarrow> nat \<Rightarrow> path" where
  "watermarked_path_of e user_id n =
     user_dir_of user_id @ ''/'' @ ''watermarked_'' @ uuid4 e (Suc (Suc n)) @ ''.mp4''"

definition merge_videos :: "env \<Rightarrow> path list \<Rightarrow> int \<Rightarrow> world \<Rightarrow> (exn + path) \<times> world" where
  "merge_videos e video_paths user_id w =
     (case mkdir e (user_dir_of user_id) w of
        (Inl x, w1) \<Rightarrow> (Inl x, w1)
      | (Inr _, w1) \<Rightarrow>
          (let n = uuids w1;
               list_file = list_file_of e user_id n;
               merged_path = merged_path_of e user_id n;
               watermarked_path = watermarked_path_of e user_id n;
               w2 = w1\<lparr>uuids := Suc (Suc (Suc n))\<rparr>
           in merge_videos_finally e list_file
                (case merge_videos_try e video_paths user_id list_file merged_path watermarked_path w2 of
                   (Inl x, w3) \<Rightarrow> (Inl x, log_error (''Error in merge_videos: '' @ str_exn x) w3)
                 | (Inr p, w3) \<Rightarrow> (Inr p, w3))))"

section \<open>bot.py\<close>

text \<open>
  \<open>user_videos\<close>, the module-level dictionary from user id to the list of stored
  paths.  The texts sent to the user are the source's, without the pictograph and the
  space that start each of them (the pictograph lies outside ASCII).
\<close>

type_synonym sessions = "int \<Rightarrow> path list option"





definition MSG_NEED_TWO :: string where
  "MSG_NEED_TWO = ''Please send at least 2 videos before merging.''"

definition MSG_MERGING :: string where
  "MSG_MERGING =
     ''Merging your videos and adding watermark...\<newline>''
     @ ''This may take a while depending on the size of your videos.''"

definition MSG_COMPLETE :: string where
  "MSG_COMPLETE = ''Merge complete! Sending your video...''"

definition CAPTION :: string where
  "CAPTION = ''Here'' @ [CHR 0x27] @ ''s your merged video with watermark!''"

definition MSG_SENT :: string where
  "MSG_SENT = ''Your videos have been merged and sent!''"

definition MSG_MERGE_ERROR :: string where
  "MSG_MERGE_ERROR =
     ''There was an error merging your videos. Please try again or /reset and start over.''"

definition MSG_CLEARED :: string where
  "MSG_CLEARED = ''Your video list has been cleared.''"

definition MSG_NOTHING :: string where
  "MSG_NOTHING = ''You don'' @ [CHR 0x27] @ ''t have any videos to clear.''"

text \<open>\<open>open(path, "rb")\<close>\<close>

definition open_read :: "env \<Rightarrow> path \<Rightarrow> world \<Rightarrow> (exn + unit) \<times> world" where
  "open_read e p w =
     (case act e (Open_r p) w of
        (Inl x, w1) \<Rightarrow> (Inl x, w1)
      | (Inr _, w1) \<Rightarrow>
          if file_exists (fs w1) p then (Inr (), w1)
          else (Inl (Exception ''No such file or directory''), w1))"

subsection \<open>handle_video\<close>



subsection \<open>merge_command\<close>

definition merge_command_try ::
  "env \<Rightarrow> int \<Rightarrow> sessions \<Rightarrow> world \<Rightarrow> (exn + unit) \<times> sessions \<times> world" where
  "merge_command_try e user_id uv w =
     (case act e (Reply_text MSG_MERGING) w of
        (Inl x, w1) \<Rightarrow> (Inl x, uv, w1)
      | (Inr _, w1) \<Rightarrow>
          (case uv user_id of
             None \<Rightarrow> (Inl (Exception ''KeyError''), uv, w1)
           | Some video_paths \<Rightarrow>
               (case merge_videos e video_paths user_id w1 of
                  (Inl x, w2) \<Rightarrow> (Inl x, uv, w2)
                | (Inr result_path, w2) \<Rightarrow>
                    (case act e (Edit_text MSG_COMPLETE) w2 of
                       (Inl x, w3) \<Rightarrow> (Inl x, uv, w3)
                     | (Inr _, w3) \<Rightarrow>
                         (case open_read e result_path w3 of
                            (Inl x, w4) \<Rightarrow> (Inl x, uv, w4)
                          | (Inr _, w4) \<Rightarrow>
                              (case act e (Reply_video result_path CAPTION) w4 of
                                 (Inl x, w5) \<Rightarrow> (Inl x, uv, w5)
                               | (Inr _, w5) \<Rightarrow>
                                   (case clean_user_videos e user_id video_paths (Some result_path) w5 of
                                      (Inl x, w6) \<Rightarrow> (Inl x, uv, w6)
                                    | (Inr _, w6) \<Rightarrow>
                                        (let uv1 = uv(user_id \<mapsto> [])
                                         in case act e (Edit_text MSG_SENT) w6 of
                                              (r, w7) \<Rightarrow> (r, uv1, w7)))))))))"

definition merge_command ::
  "env \<Rightarrow> int \<Rightarrow> sessions \<Rightarrow> world \<Rightarrow> (exn + unit) \<times> sessions \<times> world" where
  "merge_command e user_id uv w =
     (if (case uv user_id of None \<Rightarrow> True | Some ps \<Rightarrow> length ps < 2) then
        (case act e (Reply_text MSG_NEED_TWO) w of (r, w1) \<Rightarrow> (r, uv, w1))
      else
        (case merge_command_try e user_id uv w of
           (Inl x, uv1, w1) \<Rightarrow>
             (case act e (Reply_text MSG_MERGE_ERROR)
                     (log_error (''Error merging videos: '' @ str_exn x) w1) of
                (r, w2) \<Rightarrow> (r, uv1, w2))
         | (Inr _, uv1, w1) \<Rightarrow> (Inr (), uv1, w1)))"

subsection \<open>reset_command\<close>

definition reset_command ::
  "env \<Rightarrow> int \<Rightarrow> sessions \<Rightarrow> world \<Rightarrow> (exn + unit) \<times> sessions \<times> world" where
  "reset_command e user_id uv w =
     (case uv user_id of
        Some (p # ps) \<Rightarrow>
          (case clean_user_videos e user_id (p # ps) None w of
             (Inl x, w1) \<Rightarrow> (Inl x, uv, w1)
           | (Inr _, w1) \<Rightarrow>
               (case act e (Reply_text MSG_CLEARED) w1 of
                  (r, w2) \<Rightarrow> (r, uv(user_id \<mapsto> []), w2)))
      | _ \<Rightarrow> (case act e (Reply_text MSG_NOTHING) w of (r, w1) \<Rightarrow> (r, uv, w1)))"

section \<open>Vocabulary of the properties\<close>

text \<open>What the user sees: the calls that send something through the gateway.\<close>

fun visible :: "event \<Rightarrow> bool" where
  "visible (Reply_text t) = True"
| "visible (Edit_text t) = True"
| "visible (Reply_video p c) = True"
| "visible ev = False"

fun is_exec :: "event \<Rightarrow> bool" where
  "is_exec (Exec cmd) = True"
| "is_exec ev = False"

fun is_remove :: "event \<Rightarrow> bool" where
  "is_remove (Remove p) = True"
| "is_remove ev = False"

text \<open>The calls that fetch the bytes of an upload.\<close>

fun is_transfer :: "event \<Rightarrow> bool" where
  "is_transfer Get_file = True"
| "is_transfer (Download p) = True"
| "is_transfer ev = False"



text \<open>
  One text-draw operation as the specification describes it: a text at given coordinates,
  in the fixed font, colour and size, with the fixed shadow offset.
\<close>

definition drawtext_op :: "string \<Rightarrow> string \<Rightarrow> string" where
  "drawtext_op text coords =
     ''drawtext=text='' @ [CHR 0x27] @ text @ [CHR 0x27]
     @ '':fontfile=/usr/share/fonts/truetype/dejavu/DejaVuSans-Bold.ttf:'' @ coords
     @ '':fontcolor=white:fontsize=20:shadowcolor=black:shadowx=2:shadowy=2''"

text \<open>How often a word occurs in a text.\<close>

fun occurrences :: "string \<Rightarrow> string \<Rightarrow> nat" where
  "occurrences word [] = 0"
| "occurrences word (c # cs) =
     (if take (length word) (c # cs) = word then 1 else 0) + occurrences word cs"

subsection \<open>Example environments\<close>

text \<open>A tool that succeeds and writes its output file (the last argument).\<close>

definition tool_ok :: "string list \<Rightarrow> filesys \<Rightarrow> int \<times> (exn + string) \<times> filesys" where
  "tool_ok cmd f = (0, Inr [], fs_write f (last cmd) ''video'')"

text \<open>A tool that fails after it has written part of its output.\<close>

definition tool_partial :: "string list \<Rightarrow> filesys \<Rightarrow> int \<times> (exn + string) \<times> filesys" where
  "tool_partial cmd f = (1, Inr ''Invalid data found'', fs_write f (last cmd) ''part'')"

definition env_ok :: env where
  "env_ok =
     \<lparr>fails = (\<lambda>ev. False), errmsg = (\<lambda>ev. ''refused''), ffmpeg = tool_ok,
      abspath = (\<lambda>p. ''/app/'' @ p), uuid4 = (\<lambda>n. ''id'' @ str_nat n)\<rparr>"

definition env_partial :: env where
  "env_partial = env_ok\<lparr>ffmpeg := tool_partial\<rparr>"

text \<open>A file system that refuses to delete one stored upload.\<close>

definition env_locked :: env where
  "env_locked = env_ok\<lparr>fails := (\<lambda>ev. ev = Remove ''temp/1/a.mp4'')\<rparr>"

text \<open>A file system that refuses every deletion.\<close>

definition env_keep :: env where
  "env_keep = env_ok\<lparr>fails := is_remove\<rparr>"

text \<open>A gateway whose downloads fail.\<close>

definition env_offline :: env where
  "env_offline = env_ok\<lparr>fails := is_transfer\<rparr>"

text \<open>A system on which the tool cannot be started and nothing can be deleted.\<close>

definition env_stuck :: env where
  "env_stuck = env_ok\<lparr>fails := (\<lambda>ev. is_exec ev \<or> is_remove ev)\<rparr>"

definition w0 :: world where
  "w0 =
     \<lparr>fs = [(''temp/1/a.mp4'', ''A''), (''temp/1/b.mp4'', ''B'')],
      dirs = [''temp/1'', ''temp''], trace = [], uuids = 2\<rparr>"

definition uv0 :: sessions where
  "uv0 = Map.empty(1 \<mapsto> [''temp/1/a.mp4'', ''temp/1/b.mp4''])"

section \<open>Basic facts\<close>

lemma act_eq:
  "act e ev w =
     (if fails e ev then Inl (Exception (errmsg e ev)) else Inr (),
      w\<lparr>trace := trace w @ [ev]\<rparr>)"
  by (simp add: act_def)

lemma str_nat_digit: "n < 10 \<Longrightarrow> str_nat n = [digit_char n]"
  by (simp add: str_nat.simps)

lemma str_int_1: "str_int 1 = ''1''"
  by (simp add: str_int_def str_nat.simps digit_char_def)

lemma str_nat_20: "str_nat 20 = ''20''"
  by (simp add: str_nat.simps digit_char_def)

section \<open>The merge request below the minimum\<close>

text \<open>
  Claim C1.  A merge request of a user whose pending list has fewer than two entries, or
  who has no entry at all, does one thing: it sends the precondition text.  The sessions
  are returned as they were, and the world differs from the one before by that single
  reply in the trace: no directory, no manifest, no process, no file touched.  This holds
  for every state the earlier events may have left.
\<close>

theorem merge_command_below_minimum:
  assumes "uv user_id = None \<or> (\<exists>ps. uv user_id = Some ps \<and> length ps < 2)"
  shows "merge_command e user_id uv w =
     (if fails e (Reply_text MSG_NEED_TWO)
      then Inl (Exception (errmsg e (Reply_text MSG_NEED_TWO))) else Inr (),
      uv, w\<lparr>trace := trace w @ [Reply_text MSG_NEED_TWO]\<rparr>)"
  using assms by (auto simp add: merge_command_def act_eq)

theorem merge_command_below_minimum_witness:
  "(uv0(1 \<mapsto> [''temp/1/a.mp4''])) 1 = Some [''temp/1/a.mp4'']
   \<and> length [''temp/1/a.mp4''] < (2::nat)
   \<and> merge_command env_ok 1 (uv0(1 \<mapsto> [''temp/1/a.mp4''])) w0 =
       (Inr (), uv0(1 \<mapsto> [''temp/1/a.mp4'']),
        w0\<lparr>trace := trace w0 @ [Reply_text MSG_NEED_TWO]\<rparr>)"
  using merge_command_below_minimum [of "uv0(1 \<mapsto> [''temp/1/a.mp4''])" 1 env_ok w0]
  by (simp add: env_ok_def)

section \<open>Cleanup stops at the first refusal\<close>

text \<open>
  Claim C4.  The claim asks that a failing deletion does not keep the later paths of the
  list from being tried.  The loop over the list has no handler of its own, so the first
  failure leaves it: with two stored files of which the first cannot be deleted, the
  second is never tried and stays on disk, and the sweep is skipped as well.
\<close>

theorem clean_user_videos_stops_at_failure:
  "clean_user_videos env_locked 1 [''temp/1/a.mp4'', ''temp/1/b.mp4''] None w0 =
     (Inr (),
      w0\<lparr>trace := [Remove ''temp/1/a.mp4'',
                   Log_error ''Error cleaning up user videos: refused'']\<rparr>)"
  by (simp add: clean_user_videos_def clean_user_videos_try_def os_remove_def act_def
      env_locked_def env_ok_def w0_def file_exists_def path_exists_def log_error_def)

section \<open>What the pipeline shows the user\<close>

text \<open>The pipeline never talks to the user: it adds no visible event to the trace.\<close>

lemma vis_act: "\<not> visible ev \<Longrightarrow> filter visible (trace (snd (act e ev w))) = filter visible (trace w)"
  by (simp add: act_eq)

lemma vis_os_remove: "filter visible (trace (snd (os_remove e p w))) = filter visible (trace w)"
  by (simp add: os_remove_def act_eq)

lemma vis_mkdir: "filter visible (trace (snd (mkdir e d w))) = filter visible (trace w)"
  by (simp add: mkdir_def act_eq)

lemma vis_run_process: "filter visible (trace (snd (run_process e cmd w))) = filter visible (trace w)"
  by (simp add: run_process_def act_eq split: prod.splits)

lemma vis_write_manifest: "filter visible (trace (snd (write_manifest e l ps w))) = filter visible (trace w)"
  by (simp add: write_manifest_def act_eq)

lemma vis_apply_watermark: "filter visible (trace (snd (apply_watermark e pos i out w))) = filter visible (trace w)"
  by (simp add: apply_watermark_def apply_watermark_try_def log_info_def log_error_def
      prod.case_eq_if vis_run_process split: sum.splits)

lemma vis_merge_videos_try:
  "filter visible (trace (snd (merge_videos_try e ps uid l m wm w))) = filter visible (trace w)"
  by (simp add: merge_videos_try_def log_info_def log_error_def prod.case_eq_if
      vis_run_process vis_write_manifest vis_apply_watermark split: sum.splits)

lemma vis_merge_videos_finally:
  "filter visible (trace (snd (merge_videos_finally e l rw))) = filter visible (trace (snd rw))"
  by (simp add: merge_videos_finally_def prod.case_eq_if vis_os_remove split: sum.splits)

lemma vis_merge_videos:
  "filter visible (trace (snd (merge_videos e ps uid w))) = filter visible (trace w)"
  by (simp add: merge_videos_def Let_def log_error_def prod.case_eq_if
      vis_mkdir vis_merge_videos_try vis_merge_videos_finally split: sum.splits)

section \<open>A failing pipeline\<close>

text \<open>
  Claim C2.  A user has at least two pending paths and the pipeline raises (merge_videos
  returns an exception, whichever stage it comes from).  Then the handler logs the
  exception text and sends the fixed failure text; what the user has been shown since
  the request is the progress text and that failure text, nothing else; and the sessions
  are returned as they were, so the pending list holds the same paths in the same order.
\<close>

theorem merge_command_pipeline_failure:
  assumes "uv user_id = Some video_paths" and "2 \<le> length video_paths"
    and "\<not> fails e (Reply_text MSG_MERGING)"
    and "merge_videos e video_paths user_id (w\<lparr>trace := trace w @ [Reply_text MSG_MERGING]\<rparr>) = (Inl x, w2)"
  shows "merge_command e user_id uv w =
           (if fails e (Reply_text MSG_MERGE_ERROR)
            then Inl (Exception (errmsg e (Reply_text MSG_MERGE_ERROR))) else Inr (),
            uv,
            w2\<lparr>trace := trace w2 @ [Log_error (''Error merging videos: '' @ str_exn x),
                                    Reply_text MSG_MERGE_ERROR]\<rparr>)
         \<and> filter visible (trace w2 @ [Log_error (''Error merging videos: '' @ str_exn x),
                                    Reply_text MSG_MERGE_ERROR])
           = filter visible (trace w) @ [Reply_text MSG_MERGING, Reply_text MSG_MERGE_ERROR]"
proof -
  have "filter visible (trace (snd (merge_videos e video_paths user_id
            (w\<lparr>trace := trace w @ [Reply_text MSG_MERGING]\<rparr>))))
        = filter visible (trace w) @ [Reply_text MSG_MERGING]"
    by (simp add: vis_merge_videos)
  then have vis: "filter visible (trace w2) = filter visible (trace w) @ [Reply_text MSG_MERGING]"
    by (simp add: assms(4))
  have run: "merge_command_try e user_id uv w = (Inl x, uv, w2)"
    using assms by (simp add: merge_command_try_def act_eq)
  show ?thesis
    using assms(1,2) run vis by (simp add: merge_command_def act_eq log_error_def)
qed


section \<open>What a cleanup leaves on disk\<close>

lemma log_fields [simp]:
  "fs (log_info m w) = fs w" "dirs (log_info m w) = dirs w" "uuids (log_info m w) = uuids w"
  "trace (log_info m w) = trace w @ [Log_info m]"
  "fs (log_error m w) = fs w" "dirs (log_error m w) = dirs w" "uuids (log_error m w) = uuids w"
  "trace (log_error m w) = trace w @ [Log_error m]"
  by (simp_all add: log_info_def log_error_def)

lemma file_exists_iff: "file_exists f p \<longleftrightarrow> p \<in> fst ` set f"
  by (simp add: file_exists_def)

lemma keys_fs_remove: "fst ` set (fs_remove f p) = fst ` set f - {p}"
  by (auto simp add: fs_remove_def)

lemma os_remove_ok:
  "\<not> fails e (Remove p) \<Longrightarrow> file_exists (fs w) p \<Longrightarrow>
   os_remove e p w = (Inr (), w\<lparr>trace := trace w @ [Remove p], fs := fs_remove (fs w) p\<rparr>)"
  by (simp add: os_remove_def act_eq)

lemma os_remove_refused:
  "fails e (Remove p) \<Longrightarrow>
   os_remove e p w = (Inl (Exception (errmsg e (Remove p))), w\<lparr>trace := trace w @ [Remove p]\<rparr>)"
  by (simp add: os_remove_def act_eq)

lemma os_remove_absent:
  "\<not> file_exists (fs w) p \<Longrightarrow>
   snd (os_remove e p w) = w\<lparr>trace := trace w @ [Remove p]\<rparr> \<and> (\<exists>x. fst (os_remove e p w) = Inl x)"
  by (simp add: os_remove_def act_eq)

lemma remove_paths_ok:
  assumes "\<forall>p. \<not> fails e (Remove p)"
  shows "\<forall>p \<in> set ps. p \<notin> set (dirs w) \<Longrightarrow>
         fst (remove_paths e ps w) = Inr ()
       \<and> fst ` set (fs (snd (remove_paths e ps w))) = fst ` set (fs w) - set ps
       \<and> dirs (snd (remove_paths e ps w)) = dirs w"
proof (induction ps arbitrary: w)
  case Nil
  show ?case by simp
next
  case (Cons p ps)
  show ?case
  proof (cases "file_exists (fs w) p")
    case True
    let ?w1 = "log_info (''Removed video file: '' @ p) (w\<lparr>trace := trace w @ [Remove p], fs := fs_remove (fs w) p\<rparr>)"
    have step: "remove_paths e (p # ps) w = remove_paths e ps ?w1"
      using True assms by (simp add: os_remove_ok path_exists_def)
    have k: "fst ` set (fs ?w1) = fst ` set (fs w) - {p}" "dirs ?w1 = dirs w"
      by (simp_all add: keys_fs_remove)
    have "\<forall>p \<in> set ps. p \<notin> set (dirs ?w1)" using Cons.prems by simp
    from Cons.IH [OF this] step k show ?thesis by auto
  next
    case False
    then have step: "remove_paths e (p # ps) w = remove_paths e ps w"
      using Cons.prems by (simp add: path_exists_def)
    from False have "fst ` set (fs w) - set (p # ps) = fst ` set (fs w) - set ps"
      by (auto simp add: file_exists_iff)
    moreover have "\<forall>p \<in> set ps. p \<notin> set (dirs w)" using Cons.prems by simp
    ultimately show ?thesis using Cons.IH [of w] step by simp
  qed
qed

lemma sweep_ok:
  assumes "\<forall>p. \<not> fails e (Remove p)"
  shows "fst ` set (fs (sweep e qs w)) = fst ` set (fs w) - set qs
       \<and> dirs (sweep e qs w) = dirs w"
proof (induction qs arbitrary: w)
  case Nil
  show ?case by simp
next
  case (Cons p qs)
  show ?case
  proof (cases "file_exists (fs w) p")
    case True
    let ?w1 = "log_info (''Removed temporary file: '' @ p) (w\<lparr>trace := trace w @ [Remove p], fs := fs_remove (fs w) p\<rparr>)"
    have step: "sweep e (p # qs) w = sweep e qs ?w1"
      using True assms by (simp add: os_remove_ok)
    have "fst ` set (fs ?w1) = fst ` set (fs w) - {p}" "dirs ?w1 = dirs w"
      by (simp_all add: keys_fs_remove)
    with Cons.IH [of ?w1] step show ?thesis by auto
  next
    case False
    then have step: "sweep e (p # qs) w = sweep e qs (w\<lparr>trace := trace w @ [Remove p]\<rparr>)"
      using os_remove_absent [of w p e]
      by (cases "os_remove e p w") auto
    from False have "fst ` set (fs w) - set (p # qs) = fst ` set (fs w) - set qs"
      by (auto simp add: file_exists_iff)
    with Cons.IH [of "w\<lparr>trace := trace w @ [Remove p]\<rparr>"] step show ?thesis by simp
  qed
qed

lemma glob_star_files: "p \<in> fst ` set (fs w) \<Longrightarrow> in_dir d p \<Longrightarrow> p \<in> set (glob_star w d)"
  by (auto simp add: glob_star_def)

lemma glob_star_in_dir: "p \<in> set (glob_star w d) \<Longrightarrow> in_dir d p"
  by (auto simp add: glob_star_def)

lemma clean_user_videos_ok:
  assumes nf: "\<forall>p. \<not> fails e (Remove p)"
    and nd: "\<forall>p \<in> set ps. p \<notin> set (dirs w)" and rd: "r \<notin> set (dirs w)"
    and d: "user_dir_of user_id \<in> set (dirs w)" and r: "r \<noteq> []"
  shows "fst ` set (fs (snd (clean_user_videos e user_id ps (Some r) w)))
         = fst ` set (fs w) - set ps - {r} - {p. in_dir (user_dir_of user_id) p}"
proof -
  note rp = remove_paths_ok [OF nf nd]
  obtain w1 where w1: "remove_paths e ps w = (Inr (), w1)"
    using rp by (cases "remove_paths e ps w") auto
  have k1: "fst ` set (fs w1) = fst ` set (fs w) - set ps" and d1: "dirs w1 = dirs w"
    using rp w1 by simp_all
  define w2 where "w2 = (if file_exists (fs w1) r
      then log_info (''Removed result file: '' @ r) (w1\<lparr>trace := trace w1 @ [Remove r], fs := fs_remove (fs w1) r\<rparr>)
      else w1)"
  have k2: "fst ` set (fs w2) = fst ` set (fs w1) - {r}"
    by (auto simp add: w2_def keys_fs_remove file_exists_iff)
  have d2: "dirs w2 = dirs w" by (simp add: w2_def d1)
  have run: "clean_user_videos e user_id ps (Some r) w
         = (Inr (), sweep e (glob_star w2 (user_dir_of user_id)) w2)"
    using nf d d1 d2 w1 r rd
    by (simp add: clean_user_videos_def clean_user_videos_try_def w2_def os_remove_ok Let_def
        path_exists_def)
  have "fst ` set (fs w2) - set (glob_star w2 (user_dir_of user_id))
        = fst ` set (fs w2) - {p. in_dir (user_dir_of user_id) p}"
    using glob_star_files [of _ w2 "user_dir_of user_id"] glob_star_in_dir [of _ w2 "user_dir_of user_id"]
    by auto
  then show ?thesis
    using k1 k2 by (simp add: run sweep_ok [OF nf])
qed

lemma clean_user_videos_None_ok:
  assumes nf: "\<forall>p. \<not> fails e (Remove p)"
    and nd: "\<forall>p \<in> set ps. p \<notin> set (dirs w)"
  shows "fst ` set (fs (snd (clean_user_videos e user_id ps None w)))
         = fst ` set (fs w) - set ps
           - (if path_exists w (user_dir_of user_id) \<and> user_dir_of user_id \<notin> set ps
              then {p. in_dir (user_dir_of user_id) p} else {})"
proof -
  note rp = remove_paths_ok [OF nf nd]
  obtain w1 where w1: "remove_paths e ps w = (Inr (), w1)"
    using rp by (cases "remove_paths e ps w") auto
  have k1: "fst ` set (fs w1) = fst ` set (fs w) - set ps" and d1: "dirs w1 = dirs w"
    using rp w1 by simp_all
  have run: "clean_user_videos e user_id ps None w
         = (Inr (), if path_exists w1 (user_dir_of user_id)
                    then sweep e (glob_star w1 (user_dir_of user_id)) w1 else w1)"
    using w1 by (simp add: clean_user_videos_def clean_user_videos_try_def Let_def)
  have g: "fst ` set (fs w1) - set (glob_star w1 (user_dir_of user_id))
        = fst ` set (fs w1) - {p. in_dir (user_dir_of user_id) p}"
    using glob_star_files [of _ w1 "user_dir_of user_id"] glob_star_in_dir [of _ w1 "user_dir_of user_id"]
    by auto
  have pe: "path_exists w1 (user_dir_of user_id)
            \<longleftrightarrow> path_exists w (user_dir_of user_id) \<and> user_dir_of user_id \<notin> set ps"
    using k1 d1 nd by (auto simp add: path_exists_def file_exists_iff)
  show ?thesis
    using k1 g by (simp add: run sweep_ok [OF nf] pe)
qed


section \<open>Directories and removals through the pipeline\<close>

lemma dirs_act: "dirs (snd (act e ev w)) = dirs w"
  by (simp add: act_eq)

lemma dirs_os_remove: "dirs (snd (os_remove e p w)) = dirs w"
  by (simp add: os_remove_def act_eq)

lemma dirs_run_process: "dirs (snd (run_process e cmd w)) = dirs w"
  by (simp add: run_process_def act_eq split: prod.splits)

lemma dirs_write_manifest: "dirs (snd (write_manifest e l ps w)) = dirs w"
  by (simp add: write_manifest_def act_eq)

lemma dirs_apply_watermark: "dirs (snd (apply_watermark e pos i out w)) = dirs w"
  by (simp add: apply_watermark_def apply_watermark_try_def prod.case_eq_if
      dirs_run_process split: sum.splits)

lemma dirs_merge_videos_try: "dirs (snd (merge_videos_try e ps uid l m wm w)) = dirs w"
  by (simp add: merge_videos_try_def prod.case_eq_if
      dirs_run_process dirs_write_manifest dirs_apply_watermark split: sum.splits)

lemma dirs_merge_videos_finally: "dirs (snd (merge_videos_finally e l rw)) = dirs (snd rw)"
  by (simp add: merge_videos_finally_def prod.case_eq_if dirs_os_remove split: sum.splits)

lemma mkdir_eq:
  "mkdir e d w =
     (if fails e (Mkdir d) then (Inl (Exception (errmsg e (Mkdir d))), w\<lparr>trace := trace w @ [Mkdir d]\<rparr>)
      else (Inr (), w\<lparr>trace := trace w @ [Mkdir d],
                      dirs := (if d \<in> set (dirs w) then dirs w else d # dirs w)\<rparr>))"
  by (simp add: mkdir_def act_eq)

lemma merge_videos_try_result:
  "fst (merge_videos_try e ps uid l m wm w) = Inr p \<Longrightarrow> p = wm"
  by (simp add: merge_videos_try_def prod.case_eq_if split: sum.splits if_splits)

lemma merge_videos_finally_result:
  "fst (merge_videos_finally e l rw) = Inr p \<Longrightarrow> fst rw = Inr p"
  by (simp add: merge_videos_finally_def prod.case_eq_if split: sum.splits if_splits)

lemma merge_videos_result:
  assumes "fst (merge_videos e ps uid w) = Inr p"
  shows "p = watermarked_path_of e uid (uuids w)
       \<and> set (dirs (snd (merge_videos e ps uid w))) = insert (user_dir_of uid) (set (dirs w))"
proof (cases "fails e (Mkdir (user_dir_of uid))")
  case True
  with assms show ?thesis by (simp add: merge_videos_def mkdir_eq)
next
  case False
  have "dirs (snd (merge_videos e ps uid w))
          = (if user_dir_of uid \<in> set (dirs w) then dirs w else user_dir_of uid # dirs w)"
    using False by (simp add: merge_videos_def mkdir_eq Let_def prod.case_eq_if
        dirs_merge_videos_finally dirs_merge_videos_try split: sum.splits)
  then have dd: "set (dirs (snd (merge_videos e ps uid w))) = insert (user_dir_of uid) (set (dirs w))"
    by auto
  have "p = watermarked_path_of e uid (uuids w)"
    using False assms
    by (auto simp add: merge_videos_def mkdir_eq prod.case_eq_if Let_def split: sum.splits if_splits
        dest!: merge_videos_finally_result merge_videos_try_result)
  with dd show ?thesis by simp
qed

text \<open>removals made by the pipeline: the manifest only\<close>

lemma rm_act: "\<not> is_remove ev \<Longrightarrow> filter is_remove (trace (snd (act e ev w))) = filter is_remove (trace w)"
  by (simp add: act_eq)

lemma rm_run_process: "filter is_remove (trace (snd (run_process e cmd w))) = filter is_remove (trace w)"
  by (simp add: run_process_def act_eq split: prod.splits)

lemma rm_write_manifest: "filter is_remove (trace (snd (write_manifest e l ps w))) = filter is_remove (trace w)"
  by (simp add: write_manifest_def act_eq)

lemma rm_apply_watermark: "filter is_remove (trace (snd (apply_watermark e pos i out w))) = filter is_remove (trace w)"
  by (simp add: apply_watermark_def apply_watermark_try_def
      prod.case_eq_if rm_run_process split: sum.splits)

lemma rm_merge_videos_try:
  "filter is_remove (trace (snd (merge_videos_try e ps uid l m wm w))) = filter is_remove (trace w)"
  by (simp add: merge_videos_try_def prod.case_eq_if
      rm_run_process rm_write_manifest rm_apply_watermark split: sum.splits)

lemma trace_os_remove: "trace (snd (os_remove e p w)) = trace w @ [Remove p]"
  by (simp add: os_remove_def act_eq)

lemma rm_merge_videos_finally:
  "filter is_remove (trace (snd (merge_videos_finally e l rw)))
     = filter is_remove (trace (snd rw)) @ (if path_exists (snd rw) l then [Remove l] else [])"
  by (simp add: merge_videos_finally_def prod.case_eq_if trace_os_remove split: sum.splits)

lemma rm_merge_videos:
  "\<exists>rs. filter is_remove (trace (snd (merge_videos e ps uid w))) = filter is_remove (trace w) @ rs
        \<and> set rs \<subseteq> {Remove (list_file_of e uid (uuids w))}"
  by (auto simp add: merge_videos_def mkdir_eq Let_def prod.case_eq_if
      rm_merge_videos_finally rm_merge_videos_try split: sum.splits)


section \<open>The trace and the directories through a cleanup\<close>

lemma ext_os_remove: "\<exists>evs. trace (snd (os_remove e p w)) = trace w @ evs"
  by (simp add: trace_os_remove)

lemma ext_remove_paths: "\<exists>evs. trace (snd (remove_paths e ps w)) = trace w @ evs"
proof (induction ps arbitrary: w)
  case Nil
  show ?case by simp
next
  case (Cons p ps)
  show ?case
  proof (cases "path_exists w p")
    case False
    with Cons.IH [of w] show ?thesis by simp
  next
    case True
    obtain r w1 where r: "os_remove e p w = (r, w1)" by (cases "os_remove e p w")
    obtain evs1 where e1: "trace w1 = trace w @ evs1"
      using ext_os_remove [of e p w] r by auto
    show ?thesis
    proof (cases r)
      case (Inl x)
      with True r e1 show ?thesis by simp
    next
      case (Inr u)
      obtain evs2 where
        "trace (snd (remove_paths e ps (log_info (''Removed video file: '' @ p) w1)))
           = trace (log_info (''Removed video file: '' @ p) w1) @ evs2"
        using Cons.IH by blast
      with True r e1 Inr show ?thesis by simp
    qed
  qed
qed

lemma ext_sweep: "\<exists>evs. trace (sweep e qs w) = trace w @ evs"
proof (induction qs arbitrary: w)
  case Nil
  show ?case by simp
next
  case (Cons p qs)
  obtain r w1 where r: "os_remove e p w = (r, w1)" by (cases "os_remove e p w")
  obtain evs1 where e1: "trace w1 = trace w @ evs1"
    using ext_os_remove [of e p w] r by auto
  show ?case
  proof (cases r)
    case (Inl x)
    obtain evs2 where "trace (sweep e qs w1) = trace w1 @ evs2" using Cons.IH by blast
    with r e1 Inl show ?thesis by simp
  next
    case (Inr u)
    obtain evs2 where
      "trace (sweep e qs (log_info (''Removed temporary file: '' @ p) w1))
         = trace (log_info (''Removed temporary file: '' @ p) w1) @ evs2"
      using Cons.IH by blast
    with r e1 Inr show ?thesis by simp
  qed
qed

lemma ext_clean_user_videos:
  "\<exists>evs. trace (snd (clean_user_videos e uid ps rp w)) = trace w @ evs"
proof -
  obtain r1 w1 where s1: "remove_paths e ps w = (r1, w1)" by (cases "remove_paths e ps w")
  obtain evs1 where e1: "trace w1 = trace w @ evs1"
    using ext_remove_paths [of e ps w] s1 by auto
  show ?thesis
  proof (cases r1)
    case (Inl x)
    with s1 e1 show ?thesis
      by (simp add: clean_user_videos_def clean_user_videos_try_def)
  next
    case (Inr u)
    define step2 where "step2 = (case rp of
                   None \<Rightarrow> (Inr (), w1)
                 | Some r \<Rightarrow>
                     if r \<noteq> [] \<and> path_exists w1 r then
                       (case os_remove e r w1 of
                          (Inl x, w2) \<Rightarrow> (Inl x, w2)
                        | (Inr _, w2) \<Rightarrow> (Inr (), log_info (''Removed result file: '' @ r) w2))
                     else (Inr (), w1))"
    obtain r2 w2 where s2: "step2 = (r2, w2)" by (cases step2)
    have "\<exists>evs. trace (snd step2) = trace w1 @ evs"
      by (simp add: step2_def prod.case_eq_if trace_os_remove split: option.splits sum.splits)
    then obtain evs2 where e2: "trace w2 = trace w1 @ evs2" using s2 by auto
    obtain evs3 where e3: "trace (sweep e (glob_star w2 (user_dir_of uid)) w2) = trace w2 @ evs3"
      using ext_sweep by blast
    have "clean_user_videos_try e uid ps rp w =
       (case step2 of (Inl x, w2) \<Rightarrow> (Inl x, w2)
           | (Inr _, w2) \<Rightarrow>
               (let user_dir = user_dir_of uid
                in if path_exists w2 user_dir
                   then (Inr (), sweep e (glob_star w2 user_dir) w2)
                   else (Inr (), w2)))"
      using s1 Inr by (simp add: clean_user_videos_try_def step2_def)
    with s2 e1 e2 e3 show ?thesis
      by (cases r2) (simp_all add: clean_user_videos_def Let_def)
  qed
qed


lemma dirs_remove_paths: "dirs (snd (remove_paths e ps w)) = dirs w"
proof (induction ps arbitrary: w)
  case Nil
  show ?case by simp
next
  case (Cons p ps)
  have "dirs (snd (os_remove e p w)) = dirs w" by (rule dirs_os_remove)
  with Cons.IH show ?case
    by (simp add: prod.case_eq_if split: sum.splits)
qed

lemma dirs_sweep: "dirs (sweep e qs w) = dirs w"
proof (induction qs arbitrary: w)
  case Nil
  show ?case by simp
next
  case (Cons p qs)
  have "dirs (snd (os_remove e p w)) = dirs w" by (rule dirs_os_remove)
  with Cons.IH show ?case
    by (simp add: prod.case_eq_if split: sum.splits)
qed

lemma dirs_clean_user_videos: "dirs (snd (clean_user_videos e uid ps rp w)) = dirs w"
  by (simp add: clean_user_videos_def clean_user_videos_try_def prod.case_eq_if Let_def
      dirs_remove_paths dirs_sweep dirs_os_remove split: sum.splits option.splits)


lemma merge_command_try_Inr:
  assumes run: "merge_command_try e user_id uv w = (Inr (), uv', w')"
    and uv: "uv user_id = Some video_paths"
  shows "\<exists>result_path w2.
           merge_videos e video_paths user_id (w\<lparr>trace := trace w @ [Reply_text MSG_MERGING]\<rparr>)
             = (Inr result_path, w2)
         \<and> \<not> fails e (Reply_video result_path CAPTION)
         \<and> file_exists (fs w2) result_path
         \<and> uv' = uv(user_id \<mapsto> [])
         \<and> w' = (snd (clean_user_videos e user_id video_paths (Some result_path)
                    (w2\<lparr>trace := trace w2 @ [Edit_text MSG_COMPLETE, Open_r result_path,
                                              Reply_video result_path CAPTION]\<rparr>)))
                 \<lparr>trace := trace (snd (clean_user_videos e user_id video_paths (Some result_path)
                    (w2\<lparr>trace := trace w2 @ [Edit_text MSG_COMPLETE, Open_r result_path,
                                              Reply_video result_path CAPTION]\<rparr>))) @ [Edit_text MSG_SENT]\<rparr>"
  using run uv
  by (auto simp add: merge_command_try_def act_eq open_read_def Let_def
      split: if_splits prod.splits sum.splits)

section \<open>A successful merge\<close>

text \<open>
  Claim C3, as amended.  A merge request succeeds end to end when the \<open>try\<close> block of
  the handler runs to its end.  Then the pipeline returned the watermarked file, which was
  on disk; up to that point the request had removed nothing but the manifest; the file was
  sent to the user and the send did not fail; the cleanup started from the world in which
  that send is the latest event, so every event of the cleanup comes after the delivery;
  and the pending list of the user is empty afterwards.  Provided the file system refuses
  no deletion and none of the paths to delete is a directory, no regular file is left
  directly in the user's directory, and no input path and no final file is left.  No
  directory is removed: the directories afterwards are those before and the user's own.
\<close>

theorem merge_command_success:
  assumes uv: "uv user_id = Some video_paths"
    and len: "2 \<le> length video_paths"
    and run: "merge_command_try e user_id uv w = (Inr (), uv', w')"
  shows "merge_command e user_id uv w = (Inr (), uv', w')
       \<and> uv' = uv(user_id \<mapsto> [])
       \<and> set (dirs w') = insert (user_dir_of user_id) (set (dirs w))
       \<and> (\<exists>result_path w2 w6 rs evs.
             result_path = watermarked_path_of e user_id (uuids w)
           \<and> merge_videos e video_paths user_id (w\<lparr>trace := trace w @ [Reply_text MSG_MERGING]\<rparr>)
               = (Inr result_path, w2)
           \<and> filter is_remove (trace w2) = filter is_remove (trace w) @ rs
           \<and> set rs \<subseteq> {Remove (list_file_of e user_id (uuids w))}
           \<and> file_exists (fs w2) result_path
           \<and> \<not> fails e (Reply_video result_path CAPTION)
           \<and> clean_user_videos e user_id video_paths (Some result_path)
                 (w2\<lparr>trace := trace w2 @ [Edit_text MSG_COMPLETE, Open_r result_path,
                                           Reply_video result_path CAPTION]\<rparr>) = (Inr (), w6)
           \<and> trace w6 = trace w2 @ [Edit_text MSG_COMPLETE, Open_r result_path,
                                     Reply_video result_path CAPTION] @ evs
           \<and> w' = w6\<lparr>trace := trace w6 @ [Edit_text MSG_SENT]\<rparr>
           \<and> ((\<forall>p. \<not> fails e (Remove p))
                 \<and> (\<forall>p \<in> insert result_path (set video_paths). p \<notin> set (dirs w')) \<longrightarrow>
                 (\<forall>p. in_dir (user_dir_of user_id) p \<longrightarrow> \<not> file_exists (fs w') p)
               \<and> (\<forall>p \<in> set video_paths. \<not> file_exists (fs w') p)
               \<and> \<not> file_exists (fs w') result_path))"
proof -
  let ?w1 = "w\<lparr>trace := trace w @ [Reply_text MSG_MERGING]\<rparr>"
  obtain result_path w2 where
    mv: "merge_videos e video_paths user_id ?w1 = (Inr result_path, w2)"
    and sent: "\<not> fails e (Reply_video result_path CAPTION)"
    and there: "file_exists (fs w2) result_path"
    and uv': "uv' = uv(user_id \<mapsto> [])"
    and w': "w' = (snd (clean_user_videos e user_id video_paths (Some result_path)
                    (w2\<lparr>trace := trace w2 @ [Edit_text MSG_COMPLETE, Open_r result_path,
                                              Reply_video result_path CAPTION]\<rparr>)))
                 \<lparr>trace := trace (snd (clean_user_videos e user_id video_paths (Some result_path)
                    (w2\<lparr>trace := trace w2 @ [Edit_text MSG_COMPLETE, Open_r result_path,
                                              Reply_video result_path CAPTION]\<rparr>))) @ [Edit_text MSG_SENT]\<rparr>"
    using merge_command_try_Inr [OF run uv] by blast
  define w5 where
    "w5 = w2\<lparr>trace := trace w2 @ [Edit_text MSG_COMPLETE, Open_r result_path,
                                  Reply_video result_path CAPTION]\<rparr>"
  define w6 where "w6 = snd (clean_user_videos e user_id video_paths (Some result_path) w5)"
  have c6: "clean_user_videos e user_id video_paths (Some result_path) w5 = (Inr (), w6)"
    by (simp add: w6_def prod_eq_iff clean_user_videos_def split: prod.splits sum.splits)
  have w'6: "w' = w6\<lparr>trace := trace w6 @ [Edit_text MSG_SENT]\<rparr>"
    using w' by (simp add: w6_def w5_def)
  obtain evs where evs: "trace w6 = trace w5 @ evs"
    using ext_clean_user_videos [of e user_id video_paths "Some result_path" w5]
    by (auto simp add: w6_def)
  have res: "result_path = watermarked_path_of e user_id (uuids w)"
    "set (dirs w2) = insert (user_dir_of user_id) (set (dirs w))"
    using merge_videos_result [of e video_paths user_id ?w1 result_path] mv
    by simp_all
  obtain rs where rs: "filter is_remove (trace w2) = filter is_remove (trace w) @ rs"
    "set rs \<subseteq> {Remove (list_file_of e user_id (uuids w))}"
    using rm_merge_videos [of e video_paths user_id ?w1] mv by auto
  have whole: "merge_command e user_id uv w = (Inr (), uv', w')"
    using uv len run by (simp add: merge_command_def)
  have dw': "dirs w' = dirs w5"
    using dirs_clean_user_videos [of e user_id video_paths "Some result_path" w5]
    by (simp add: w'6 w6_def)
  have gone: "(\<forall>p. in_dir (user_dir_of user_id) p \<longrightarrow> \<not> file_exists (fs w') p)
               \<and> (\<forall>p \<in> set video_paths. \<not> file_exists (fs w') p)
               \<and> \<not> file_exists (fs w') result_path"
    if nf: "\<forall>p. \<not> fails e (Remove p)"
      and nd: "\<forall>p \<in> insert result_path (set video_paths). p \<notin> set (dirs w')"
  proof -
    have nd5: "\<forall>p \<in> set video_paths. p \<notin> set (dirs w5)" "result_path \<notin> set (dirs w5)"
      using nd dw' by simp_all
    have d5: "user_dir_of user_id \<in> set (dirs w5)" using res by (simp add: w5_def)
    have ne: "result_path \<noteq> []"
      by (simp add: res watermarked_path_of_def user_dir_of_def TEMP_DIR_def)
    have "fst ` set (fs w6) = fst ` set (fs w5) - set video_paths - {result_path}
            - {p. in_dir (user_dir_of user_id) p}"
      unfolding w6_def using nf nd5 d5 ne by (rule clean_user_videos_ok)
    moreover have "fs w' = fs w6" by (simp add: w'6)
    ultimately show ?thesis
      by (auto simp add: file_exists_iff)
  qed
  have "result_path = watermarked_path_of e user_id (uuids w)
           \<and> merge_videos e video_paths user_id ?w1 = (Inr result_path, w2)
           \<and> filter is_remove (trace w2) = filter is_remove (trace w) @ rs
           \<and> set rs \<subseteq> {Remove (list_file_of e user_id (uuids w))}
           \<and> file_exists (fs w2) result_path
           \<and> \<not> fails e (Reply_video result_path CAPTION)
           \<and> clean_user_videos e user_id video_paths (Some result_path)
                 (w2\<lparr>trace := trace w2 @ [Edit_text MSG_COMPLETE, Open_r result_path,
                                           Reply_video result_path CAPTION]\<rparr>) = (Inr (), w6)
           \<and> trace w6 = trace w2 @ [Edit_text MSG_COMPLETE, Open_r result_path,
                                     Reply_video result_path CAPTION] @ evs
           \<and> w' = w6\<lparr>trace := trace w6 @ [Edit_text MSG_SENT]\<rparr>
           \<and> ((\<forall>p. \<not> fails e (Remove p))
                 \<and> (\<forall>p \<in> insert result_path (set video_paths). p \<notin> set (dirs w')) \<longrightarrow>
                 (\<forall>p. in_dir (user_dir_of user_id) p \<longrightarrow> \<not> file_exists (fs w') p)
               \<and> (\<forall>p \<in> set video_paths. \<not> file_exists (fs w') p)
               \<and> \<not> file_exists (fs w') result_path)"
    using res(1) mv rs there sent c6 evs w'6 gone
    by (simp add: w5_def)
  moreover have "set (dirs w') = insert (user_dir_of user_id) (set (dirs w))"
    using dw' res(2) by (simp add: w5_def)
  ultimately show ?thesis using whole uv' by blast
qed


section \<open>Cleanup never raises\<close>

lemma rm_sweep: "filter is_remove (trace (sweep e qs w)) = filter is_remove (trace w) @ map Remove qs"
proof (induction qs arbitrary: w)
  case Nil
  show ?case by simp
next
  case (Cons q qs)
  have t: "trace (snd (os_remove e q w)) = trace w @ [Remove q]" by (rule trace_os_remove)
  show ?case
    by (simp add: prod.case_eq_if Cons.IH t split: sum.splits)
qed

text \<open>
  Claim C10.  clean_user_videos returns normally for every user, every list of paths,
  every optional result path and every pattern of failing deletions.  What the body
  raises is caught at the outer handler and logged there with its text: in particular a
  refused deletion in the loop over the list ends in that log entry.  The sweep swallows
  its own failures one by one: it tries every entry it was given, in order, whatever the
  file system refuses, and goes on after a refused entry.
\<close>

theorem clean_user_videos_returns:
  "fst (clean_user_videos e user_id video_paths result_path w) = Inr ()
   \<and> (\<forall>x w1. clean_user_videos_try e user_id video_paths result_path w = (Inl x, w1) \<longrightarrow>
         snd (clean_user_videos e user_id video_paths result_path w)
           = w1\<lparr>trace := trace w1 @ [Log_error (''Error cleaning up user videos: '' @ str_exn x)]\<rparr>)
   \<and> (\<forall>u w1. clean_user_videos_try e user_id video_paths result_path w = (Inr u, w1) \<longrightarrow>
         snd (clean_user_videos e user_id video_paths result_path w) = w1)
   \<and> (fails e (Remove p) \<and> path_exists w p \<longrightarrow>
         clean_user_videos e user_id (p # ps) result_path w
           = (Inr (), w\<lparr>trace := trace w @ [Remove p,
                 Log_error (''Error cleaning up user videos: '' @ errmsg e (Remove p))]\<rparr>))
   \<and> filter is_remove (trace (sweep e qs w)) = filter is_remove (trace w) @ map Remove qs
   \<and> (fails e (Remove q) \<longrightarrow>
         sweep e (q # qs) w = sweep e qs (w\<lparr>trace := trace w @ [Remove q]\<rparr>))"
proof (intro conjI allI impI)
  show "fst (clean_user_videos e user_id video_paths result_path w) = Inr ()"
    by (simp add: clean_user_videos_def split: prod.splits sum.splits)
next
  fix x w1
  assume "clean_user_videos_try e user_id video_paths result_path w = (Inl x, w1)"
  then show "snd (clean_user_videos e user_id video_paths result_path w)
           = w1\<lparr>trace := trace w1 @ [Log_error (''Error cleaning up user videos: '' @ str_exn x)]\<rparr>"
    by (simp add: clean_user_videos_def log_error_def)
next
  fix u w1
  assume "clean_user_videos_try e user_id video_paths result_path w = (Inr u, w1)"
  then show "snd (clean_user_videos e user_id video_paths result_path w) = w1"
    by (simp add: clean_user_videos_def)
next
  assume "fails e (Remove p) \<and> path_exists w p"
  then show "clean_user_videos e user_id (p # ps) result_path w
           = (Inr (), w\<lparr>trace := trace w @ [Remove p,
                 Log_error (''Error cleaning up user videos: '' @ errmsg e (Remove p))]\<rparr>)"
    by (simp add: clean_user_videos_def clean_user_videos_try_def os_remove_refused log_error_def)
next
  show "filter is_remove (trace (sweep e qs w)) = filter is_remove (trace w) @ map Remove qs"
    by (rule rm_sweep)
next
  assume "fails e (Remove q)"
  then show "sweep e (q # qs) w = sweep e qs (w\<lparr>trace := trace w @ [Remove q]\<rparr>)"
    by (simp add: os_remove_refused)
qed

theorem clean_user_videos_returns_witness:
  "fails env_locked (Remove ''temp/1/a.mp4'') \<and> path_exists w0 ''temp/1/a.mp4''
   \<and> clean_user_videos_try env_locked 1 [''temp/1/a.mp4'', ''temp/1/b.mp4''] None w0
       = (Inl (Exception ''refused''), w0\<lparr>trace := [Remove ''temp/1/a.mp4'']\<rparr>)
   \<and> fst (clean_user_videos env_locked 1 [''temp/1/a.mp4'', ''temp/1/b.mp4''] None w0) = Inr ()
   \<and> trace (snd (clean_user_videos env_locked 1 [''temp/1/a.mp4'', ''temp/1/b.mp4''] None w0))
       = [Remove ''temp/1/a.mp4'', Log_error ''Error cleaning up user videos: refused'']
   \<and> sweep env_locked [''temp/1/a.mp4'', ''temp/1/b.mp4''] w0
       = sweep env_locked [''temp/1/b.mp4''] (w0\<lparr>trace := trace w0 @ [Remove ''temp/1/a.mp4'']\<rparr>)
   \<and> filter is_remove (trace (sweep env_locked [''temp/1/a.mp4'', ''temp/1/b.mp4''] w0))
       = [Remove ''temp/1/a.mp4'', Remove ''temp/1/b.mp4'']
   \<and> \<not> file_exists (fs (sweep env_locked [''temp/1/a.mp4'', ''temp/1/b.mp4''] w0)) ''temp/1/b.mp4''"
proof -
  have f: "fails env_locked (Remove ''temp/1/a.mp4'')"
    by (simp add: env_locked_def env_ok_def)
  have pe: "path_exists w0 ''temp/1/a.mp4''"
    by (simp add: path_exists_def file_exists_def w0_def)
  have t: "clean_user_videos_try env_locked 1 [''temp/1/a.mp4'', ''temp/1/b.mp4''] None w0
       = (Inl (Exception ''refused''), w0\<lparr>trace := [Remove ''temp/1/a.mp4'']\<rparr>)"
    using f pe by (simp add: clean_user_videos_try_def os_remove_refused)
       (simp add: env_locked_def env_ok_def w0_def)
  have t0: "trace w0 = []" by (simp add: w0_def)
  have gone: "\<not> file_exists (fs (sweep env_locked [''temp/1/a.mp4'', ''temp/1/b.mp4''] w0)) ''temp/1/b.mp4''"
    by (simp add: os_remove_def act_eq env_locked_def env_ok_def w0_def file_exists_def fs_remove_def)
  note th1 = clean_user_videos_returns
      [where e = env_locked and user_id = 1 and video_paths = "[''temp/1/a.mp4'', ''temp/1/b.mp4'']"
         and result_path = None and w = w0 and p = "''temp/1/a.mp4''" and ps = "[''temp/1/b.mp4'']"
         and q = "''temp/1/a.mp4''" and qs = "[''temp/1/b.mp4'']"]
  note th2 = clean_user_videos_returns
      [where e = env_locked and user_id = 1 and video_paths = "[''temp/1/a.mp4'', ''temp/1/b.mp4'']"
         and result_path = None and w = w0 and p = "''temp/1/a.mp4''" and ps = "[''temp/1/b.mp4'']"
         and q = "''temp/1/a.mp4''" and qs = "[''temp/1/a.mp4'', ''temp/1/b.mp4'']"]
  from th1 f pe t0 have a:
    "fst (clean_user_videos env_locked 1 [''temp/1/a.mp4'', ''temp/1/b.mp4''] None w0) = Inr ()"
    "clean_user_videos env_locked 1 [''temp/1/a.mp4'', ''temp/1/b.mp4''] None w0
       = (Inr (), w0\<lparr>trace := [Remove ''temp/1/a.mp4'',
             Log_error (''Error cleaning up user videos: '' @ errmsg env_locked (Remove ''temp/1/a.mp4''))]\<rparr>)"
    "sweep env_locked [''temp/1/a.mp4'', ''temp/1/b.mp4''] w0
       = sweep env_locked [''temp/1/b.mp4''] (w0\<lparr>trace := trace w0 @ [Remove ''temp/1/a.mp4'']\<rparr>)"
    by simp_all
  from th2 t0 have b:
    "filter is_remove (trace (sweep env_locked [''temp/1/a.mp4'', ''temp/1/b.mp4''] w0))
       = [Remove ''temp/1/a.mp4'', Remove ''temp/1/b.mp4'']"
    by simp
  have m: "errmsg env_locked (Remove ''temp/1/a.mp4'') = ''refused''"
    by (simp add: env_locked_def env_ok_def)
  have c: "trace (snd (clean_user_videos env_locked 1 [''temp/1/a.mp4'', ''temp/1/b.mp4''] None w0))
       = [Remove ''temp/1/a.mp4'', Log_error ''Error cleaning up user videos: refused'']"
    by (simp add: a(2) m)
  show ?thesis
    using f pe t a(1) a(3) b c gone by simp
qed


section \<open>The reset request\<close>

text \<open>
  Claim C9, as amended.  A reset request of a user with a non-empty pending list runs the
  cleanup on the pending paths, sets the pending list to the empty list and sends the
  success text; the pending files are all deleted provided the file system refuses no
  deletion and none of the paths is a directory.  With an empty list or no entry, the
  request sends the informational text and changes nothing else: the sessions and the
  file system are as before.
\<close>

theorem reset_command_outcome:
  "(\<forall>p ps. uv user_id = Some (p # ps) \<longrightarrow>
        reset_command e user_id uv w =
          (if fails e (Reply_text MSG_CLEARED)
           then Inl (Exception (errmsg e (Reply_text MSG_CLEARED))) else Inr (),
           uv(user_id \<mapsto> []),
           (snd (clean_user_videos e user_id (p # ps) None w))
             \<lparr>trace := trace (snd (clean_user_videos e user_id (p # ps) None w))
                        @ [Reply_text MSG_CLEARED]\<rparr>)
      \<and> ((\<forall>q. \<not> fails e (Remove q)) \<and> (\<forall>q \<in> set (p # ps). q \<notin> set (dirs w)) \<longrightarrow>
            (\<forall>q \<in> set (p # ps). \<not> file_exists (fs (snd (snd (reset_command e user_id uv w)))) q)))
   \<and> (uv user_id = None \<or> uv user_id = Some [] \<longrightarrow>
        reset_command e user_id uv w =
          (if fails e (Reply_text MSG_NOTHING)
           then Inl (Exception (errmsg e (Reply_text MSG_NOTHING))) else Inr (),
           uv, w\<lparr>trace := trace w @ [Reply_text MSG_NOTHING]\<rparr>))"
proof (intro conjI allI impI)
  fix p ps
  assume some: "uv user_id = Some (p # ps)"
  let ?c = "clean_user_videos e user_id (p # ps) None w"
  have c: "fst ?c = Inr ()"
    by (simp add: clean_user_videos_def split: prod.splits sum.splits)
  show run: "reset_command e user_id uv w =
      (if fails e (Reply_text MSG_CLEARED)
       then Inl (Exception (errmsg e (Reply_text MSG_CLEARED))) else Inr (),
       uv(user_id \<mapsto> []), (snd ?c)\<lparr>trace := trace (snd ?c) @ [Reply_text MSG_CLEARED]\<rparr>)"
    using some c by (simp add: reset_command_def act_eq prod.case_eq_if)
  show "\<forall>q \<in> set (p # ps). \<not> file_exists (fs (snd (snd (reset_command e user_id uv w)))) q"
    if h: "(\<forall>q. \<not> fails e (Remove q)) \<and> (\<forall>q \<in> set (p # ps). q \<notin> set (dirs w))"
  proof -
    have "fs (snd (snd (reset_command e user_id uv w))) = fs (snd ?c)" by (simp add: run)
    moreover have "fst ` set (fs (snd ?c)) \<subseteq> fst ` set (fs w) - set (p # ps)"
      using clean_user_videos_None_ok [of e "p # ps" w user_id] h by auto
    ultimately show ?thesis
      by (auto simp add: file_exists_iff)
  qed
next
  assume "uv user_id = None \<or> uv user_id = Some []"
  then show "reset_command e user_id uv w =
          (if fails e (Reply_text MSG_NOTHING)
           then Inl (Exception (errmsg e (Reply_text MSG_NOTHING))) else Inr (),
           uv, w\<lparr>trace := trace w @ [Reply_text MSG_NOTHING]\<rparr>)"
    by (auto simp add: reset_command_def act_eq)
qed

theorem reset_command_outcome_witness:
  "uv0 1 = Some [''temp/1/a.mp4'', ''temp/1/b.mp4'']
   \<and> (\<forall>q. \<not> fails env_ok (Remove q))
   \<and> ''temp/1/a.mp4'' \<notin> set (dirs w0) \<and> ''temp/1/b.mp4'' \<notin> set (dirs w0)
   \<and> fst (reset_command env_ok 1 uv0 w0) = Inr ()
   \<and> fst (snd (reset_command env_ok 1 uv0 w0)) 1 = Some []
   \<and> last (trace (snd (snd (reset_command env_ok 1 uv0 w0)))) = Reply_text MSG_CLEARED
   \<and> \<not> file_exists (fs (snd (snd (reset_command env_ok 1 uv0 w0)))) ''temp/1/a.mp4''
   \<and> \<not> file_exists (fs (snd (snd (reset_command env_ok 1 uv0 w0)))) ''temp/1/b.mp4''
   \<and> (uv0(1 := None)) 1 = None
   \<and> reset_command env_ok 1 (uv0(1 := None)) w0 =
        (Inr (), uv0(1 := None), w0\<lparr>trace := trace w0 @ [Reply_text MSG_NOTHING]\<rparr>)"
proof -
  have h: "uv0 1 = Some (''temp/1/a.mp4'' # [''temp/1/b.mp4''])" by (simp add: uv0_def)
  have nf: "\<forall>q. \<not> fails env_ok (Remove q)" "\<not> fails env_ok (Reply_text MSG_CLEARED)"
    "\<not> fails env_ok (Reply_text MSG_NOTHING)"
    by (simp_all add: env_ok_def)
  have nd: "''temp/1/a.mp4'' \<notin> set (dirs w0)" "''temp/1/b.mp4'' \<notin> set (dirs w0)"
    by (simp_all add: w0_def)
  from reset_command_outcome [of uv0 1 env_ok w0] h nf nd
  have a: "fst (reset_command env_ok 1 uv0 w0) = Inr ()"
    "fst (snd (reset_command env_ok 1 uv0 w0)) 1 = Some []"
    "last (trace (snd (snd (reset_command env_ok 1 uv0 w0)))) = Reply_text MSG_CLEARED"
    "\<not> file_exists (fs (snd (snd (reset_command env_ok 1 uv0 w0)))) ''temp/1/a.mp4''"
    "\<not> file_exists (fs (snd (snd (reset_command env_ok 1 uv0 w0)))) ''temp/1/b.mp4''"
    by auto
  from reset_command_outcome [of "uv0(1 := None)" 1 env_ok w0] nf
  have b: "reset_command env_ok 1 (uv0(1 := None)) w0 =
        (Inr (), uv0(1 := None), w0\<lparr>trace := trace w0 @ [Reply_text MSG_NOTHING]\<rparr>)"
    by simp
  show ?thesis using h nf nd a b by simp
qed

theorem reset_command_outcome_counterexample:
  "uv0 1 = Some [''temp/1/a.mp4'', ''temp/1/b.mp4'']
   \<and> fst (reset_command env_locked 1 uv0 w0) = Inr ()
   \<and> fst (snd (reset_command env_locked 1 uv0 w0)) 1 = Some []
   \<and> last (trace (snd (snd (reset_command env_locked 1 uv0 w0)))) = Reply_text MSG_CLEARED
   \<and> file_exists (fs (snd (snd (reset_command env_locked 1 uv0 w0)))) ''temp/1/a.mp4''
   \<and> file_exists (fs (snd (snd (reset_command env_locked 1 uv0 w0)))) ''temp/1/b.mp4''"
  by (simp add: reset_command_def clean_user_videos_def clean_user_videos_try_def
      os_remove_def act_def path_exists_def file_exists_def log_error_def
      env_locked_def env_ok_def w0_def uv0_def)

section \<open>An upload\<close>




section \<open>The manifest\<close>

lemma write_lines_acc: "write_lines e ps acc = acc @ concat (map (manifest_line e) ps)"
  by (induction ps arbitrary: acc) simp_all

lemma fs_read_write: "fs_read (fs_write f p c) p = Some c"
  by (simp add: fs_read_def fs_write_def)

lemma file_exists_remove: "\<not> file_exists (fs_remove f p) p"
  by (simp add: file_exists_iff keys_fs_remove)

lemma finally_removes:
  "\<not> fails e (Remove l) \<Longrightarrow> \<not> file_exists (fs (snd (merge_videos_finally e l rw))) l"
  by (cases rw)
     (simp add: merge_videos_finally_def os_remove_def act_eq path_exists_def file_exists_remove)

lemma uuids_mkdir: "uuids (snd (mkdir e d w)) = uuids w"
  by (simp add: mkdir_eq)

text \<open>the pipeline when the tool cannot be started\<close>

lemma merge_videos_no_spawn:
  assumes mk: "\<not> fails e (Mkdir (user_dir_of uid))"
    and op: "\<not> fails e (Open_w (list_file_of e uid (uuids w)))"
    and ex: "fails e (Exec (merge_cmd (list_file_of e uid (uuids w)) (merged_path_of e uid (uuids w))))"
  shows "fs (snd (merge_videos e ps uid w)) =
          (if fails e (Remove (list_file_of e uid (uuids w)))
           then fs_write (fs w) (list_file_of e uid (uuids w)) (concat (map (manifest_line e) ps))
           else fs_remove (fs_write (fs w) (list_file_of e uid (uuids w)) (concat (map (manifest_line e) ps)))
                  (list_file_of e uid (uuids w)))"
  using assms
  by (simp add: merge_videos_def mkdir_eq Let_def merge_videos_try_def write_manifest_def act_eq
      run_process_def merge_videos_finally_def os_remove_def path_exists_def
      write_lines_acc file_exists_def fs_write_def)

text \<open>
  Claim C6, as amended.  For every sequence of input paths, what the concatenation step
  writes into the manifest is one line per input, in input order, each of the form
  \<open>file '<absolute path>'\<close>; once the manifest can be opened, it holds exactly these lines
  (it is still there, with this content, after a run in which the tool could not be
  started and the deletion was refused).  When the pipeline call returns, however the
  stages went, the manifest is no longer on disk, provided the file system does not refuse
  its deletion.
\<close>

theorem manifest_written_and_removed:
  "write_lines e ps [] = concat (map (\<lambda>p. ''file '' @ [CHR 0x27] @ abspath e p @ [CHR 0x27] @ ''\<newline>'') ps)
   \<and> (\<not> fails e (Open_w l) \<longrightarrow>
        fs_read (fs (snd (write_manifest e l ps w))) l
          = Some (concat (map (\<lambda>p. ''file '' @ [CHR 0x27] @ abspath e p @ [CHR 0x27] @ ''\<newline>'') ps)))
   \<and> (\<not> fails e (Mkdir (user_dir_of uid))
        \<and> \<not> fails e (Open_w (list_file_of e uid (uuids w)))
        \<and> fails e (Exec (merge_cmd (list_file_of e uid (uuids w)) (merged_path_of e uid (uuids w))))
        \<and> fails e (Remove (list_file_of e uid (uuids w))) \<longrightarrow>
        fs_read (fs (snd (merge_videos e ps uid w))) (list_file_of e uid (uuids w))
          = Some (concat (map (\<lambda>p. ''file '' @ [CHR 0x27] @ abspath e p @ [CHR 0x27] @ ''\<newline>'') ps)))
   \<and> (\<not> fails e (Mkdir (user_dir_of uid)) \<and> \<not> fails e (Remove (list_file_of e uid (uuids w))) \<longrightarrow>
        \<not> file_exists (fs (snd (merge_videos e ps uid w))) (list_file_of e uid (uuids w)))"
proof (intro conjI impI)
  have ml: "manifest_line e = (\<lambda>p. ''file '' @ [CHR 0x27] @ abspath e p @ [CHR 0x27] @ ''\<newline>'')"
    by (rule ext) (simp add: manifest_line_def)
  show wl: "write_lines e ps [] = concat (map (\<lambda>p. ''file '' @ [CHR 0x27] @ abspath e p @ [CHR 0x27] @ ''\<newline>'') ps)"
    using write_lines_acc [of e ps "[]"] by (simp add: ml)
  show "fs_read (fs (snd (write_manifest e l ps w))) l
          = Some (concat (map (\<lambda>p. ''file '' @ [CHR 0x27] @ abspath e p @ [CHR 0x27] @ ''\<newline>'') ps))"
    if "\<not> fails e (Open_w l)"
    using that by (simp add: write_manifest_def act_eq fs_read_write wl)
  show "fs_read (fs (snd (merge_videos e ps uid w))) (list_file_of e uid (uuids w))
          = Some (concat (map (\<lambda>p. ''file '' @ [CHR 0x27] @ abspath e p @ [CHR 0x27] @ ''\<newline>'') ps))"
    if h: "\<not> fails e (Mkdir (user_dir_of uid))
        \<and> \<not> fails e (Open_w (list_file_of e uid (uuids w)))
        \<and> fails e (Exec (merge_cmd (list_file_of e uid (uuids w)) (merged_path_of e uid (uuids w))))
        \<and> fails e (Remove (list_file_of e uid (uuids w)))"
  proof -
    have "fs (snd (merge_videos e ps uid w)) =
           fs_write (fs w) (list_file_of e uid (uuids w)) (concat (map (manifest_line e) ps))"
      using merge_videos_no_spawn [of e uid w ps] h by simp
    then show ?thesis by (simp add: fs_read_write ml)
  qed
  show "\<not> file_exists (fs (snd (merge_videos e ps uid w))) (list_file_of e uid (uuids w))"
    if h: "\<not> fails e (Mkdir (user_dir_of uid)) \<and> \<not> fails e (Remove (list_file_of e uid (uuids w)))"
    using h by (simp add: merge_videos_def mkdir_eq Let_def finally_removes)
qed

theorem manifest_written_and_removed_witness:
  "\<not> fails env_ok (Open_w ''temp/1/list_id2.txt'')
   \<and> fs_read (fs (snd (write_manifest env_ok ''temp/1/list_id2.txt''
                          [''temp/1/a.mp4'', ''temp/1/b.mp4''] w0))) ''temp/1/list_id2.txt''
       = Some (''file '' @ [CHR 0x27] @ ''/app/temp/1/a.mp4'' @ [CHR 0x27] @ ''\<newline>''
               @ ''file '' @ [CHR 0x27] @ ''/app/temp/1/b.mp4'' @ [CHR 0x27] @ ''\<newline>'')
   \<and> \<not> fails env_ok (Mkdir (user_dir_of 1))
   \<and> \<not> fails env_ok (Remove (list_file_of env_ok 1 (uuids w0)))
   \<and> \<not> file_exists (fs (snd (merge_videos env_ok [''temp/1/a.mp4'', ''temp/1/b.mp4''] 1 w0)))
         (list_file_of env_ok 1 (uuids w0))
   \<and> \<not> fails env_stuck (Mkdir (user_dir_of 1))
   \<and> \<not> fails env_stuck (Open_w (list_file_of env_stuck 1 (uuids w0)))
   \<and> fails env_stuck
         (Exec (merge_cmd (list_file_of env_stuck 1 (uuids w0)) (merged_path_of env_stuck 1 (uuids w0))))
   \<and> fails env_stuck (Remove (list_file_of env_stuck 1 (uuids w0)))
   \<and> fs_read (fs (snd (merge_videos env_stuck [''temp/1/a.mp4'', ''temp/1/b.mp4''] 1 w0)))
         (list_file_of env_stuck 1 (uuids w0))
       = Some (''file '' @ [CHR 0x27] @ ''/app/temp/1/a.mp4'' @ [CHR 0x27] @ ''\<newline>''
               @ ''file '' @ [CHR 0x27] @ ''/app/temp/1/b.mp4'' @ [CHR 0x27] @ ''\<newline>'')"
proof -
  let ?ps = "[''temp/1/a.mp4'', ''temp/1/b.mp4'']"
  have nf: "\<And>ev. \<not> fails env_ok ev" by (simp add: env_ok_def)
  have st: "\<not> fails env_stuck (Mkdir (user_dir_of 1))"
    "\<not> fails env_stuck (Open_w (list_file_of env_stuck 1 (uuids w0)))"
    "fails env_stuck
         (Exec (merge_cmd (list_file_of env_stuck 1 (uuids w0)) (merged_path_of env_stuck 1 (uuids w0))))"
    "fails env_stuck (Remove (list_file_of env_stuck 1 (uuids w0)))"
    by (simp_all add: env_stuck_def env_ok_def)
  have ab: "abspath env_ok = (\<lambda>p. ''/app/'' @ p)" "abspath env_stuck = (\<lambda>p. ''/app/'' @ p)"
    by (simp_all add: env_ok_def env_stuck_def)
  note a = manifest_written_and_removed [of env_ok ?ps "''temp/1/list_id2.txt''" w0 1]
  note b = manifest_written_and_removed [of env_stuck ?ps "''temp/1/list_id2.txt''" w0 1]
  from a nf have a1:
    "fs_read (fs (snd (write_manifest env_ok ''temp/1/list_id2.txt'' ?ps w0))) ''temp/1/list_id2.txt''
       = Some (concat (map (\<lambda>p. ''file '' @ [CHR 0x27] @ abspath env_ok p @ [CHR 0x27] @ ''\<newline>'') ?ps))"
    and a2: "\<not> file_exists (fs (snd (merge_videos env_ok ?ps 1 w0))) (list_file_of env_ok 1 (uuids w0))"
    by blast+
  from b st have b1:
    "fs_read (fs (snd (merge_videos env_stuck ?ps 1 w0))) (list_file_of env_stuck 1 (uuids w0))
       = Some (concat (map (\<lambda>p. ''file '' @ [CHR 0x27] @ abspath env_stuck p @ [CHR 0x27] @ ''\<newline>'') ?ps))"
    by blast
  show ?thesis
    using nf st a1 a2 b1 by (simp add: ab)
qed

section \<open>A failing concatenation\<close>

lemma ex_act: "\<not> is_exec ev \<Longrightarrow> filter is_exec (trace (snd (act e ev w))) = filter is_exec (trace w)"
  by (simp add: act_eq)

lemma ex_os_remove: "filter is_exec (trace (snd (os_remove e p w))) = filter is_exec (trace w)"
  by (simp add: os_remove_def act_eq)

lemma keys_os_remove:
  "p \<noteq> l \<Longrightarrow> file_exists (fs (snd (os_remove e l w))) p = file_exists (fs w) p"
  by (auto simp add: os_remove_def act_eq file_exists_iff keys_fs_remove)

lemma finally_keeps:
  "p \<noteq> l \<Longrightarrow> file_exists (fs (snd (merge_videos_finally e l rw))) p = file_exists (fs (snd rw)) p"
  by (simp add: merge_videos_finally_def prod.case_eq_if keys_os_remove split: sum.splits)

lemma finally_exec:
  "filter is_exec (trace (snd (merge_videos_finally e l rw))) = filter is_exec (trace (snd rw))"
  by (simp add: merge_videos_finally_def prod.case_eq_if ex_os_remove split: sum.splits)

lemma finally_raises:
  "fst rw = Inl x \<Longrightarrow> \<exists>y. fst (merge_videos_finally e l rw) = Inl y"
  by (simp add: merge_videos_finally_def prod.case_eq_if split: sum.splits)

lemma list_merged_distinct: "merged_path_of e uid n \<noteq> list_file_of e uid n"
  by (simp add: merged_path_of_def list_file_of_def)

lemma concat_failure:
  assumes mk: "\<not> fails e (Mkdir (user_dir_of uid))"
    and op: "\<not> fails e (Open_w (list_file_of e uid (uuids w)))"
    and ex: "\<not> fails e (Exec (merge_cmd (list_file_of e uid (uuids w)) (merged_path_of e uid (uuids w))))"
    and tool: "ffmpeg e (merge_cmd (list_file_of e uid (uuids w)) (merged_path_of e uid (uuids w)))
                 (fs_write (fs w) (list_file_of e uid (uuids w)) (concat (map (manifest_line e) ps)))
               = (returncode, err, f2)"
    and rc: "returncode \<noteq> 0"
  shows "(\<exists>x. fst (merge_videos e ps uid w) = Inl x)
       \<and> filter is_exec (trace (snd (merge_videos e ps uid w)))
           = filter is_exec (trace w)
             @ [Exec (merge_cmd (list_file_of e uid (uuids w)) (merged_path_of e uid (uuids w)))]
       \<and> (\<forall>p. p \<noteq> list_file_of e uid (uuids w) \<longrightarrow>
             file_exists (fs (snd (merge_videos e ps uid w))) p = file_exists f2 p)
       \<and> file_exists (fs (snd (merge_videos e ps uid w))) (merged_path_of e uid (uuids w))
           = file_exists f2 (merged_path_of e uid (uuids w))"
proof -
  let ?l = "list_file_of e uid (uuids w)"
  let ?m = "merged_path_of e uid (uuids w)"
  let ?wm = "watermarked_path_of e uid (uuids w)"
  let ?w2 = "w\<lparr>trace := trace w @ [Mkdir (user_dir_of uid)],
               dirs := (if user_dir_of uid \<in> set (dirs w) then dirs w else user_dir_of uid # dirs w),
               uuids := Suc (Suc (Suc (uuids w)))\<rparr>"
  let ?T = "merge_videos_try e ps uid ?l ?m ?wm ?w2"
  have T: "(\<exists>x. fst ?T = Inl x)
         \<and> fs (snd ?T) = f2
         \<and> filter is_exec (trace (snd ?T)) = filter is_exec (trace w) @ [Exec (merge_cmd ?l ?m)]"
    using op ex tool rc
    by (simp add: merge_videos_try_def write_manifest_def act_eq run_process_def
        write_lines_acc log_info_def log_error_def split: sum.splits)
  define R where "R = (case ?T of
                   (Inl x, w3) \<Rightarrow> (Inl x, log_error (''Error in merge_videos: '' @ str_exn x) w3)
                 | (Inr p, w3) \<Rightarrow> (Inr p, w3))"
  have R: "(\<exists>x. fst R = Inl x) \<and> fs (snd R) = f2
         \<and> filter is_exec (trace (snd R)) = filter is_exec (trace w) @ [Exec (merge_cmd ?l ?m)]"
    using T by (auto simp add: R_def prod.case_eq_if)
  have whole: "merge_videos e ps uid w = merge_videos_finally e ?l R"
    using mk by (simp add: merge_videos_def mkdir_eq Let_def R_def)
  from R obtain x where x: "fst R = Inl x" by blast
  have a: "\<exists>y. fst (merge_videos e ps uid w) = Inl y"
    unfolding whole using x by (rule finally_raises)
  have b: "filter is_exec (trace (snd (merge_videos e ps uid w)))
           = filter is_exec (trace w) @ [Exec (merge_cmd ?l ?m)]"
    by (simp add: whole finally_exec R)
  have c: "\<forall>p. p \<noteq> ?l \<longrightarrow> file_exists (fs (snd (merge_videos e ps uid w))) p = file_exists f2 p"
    by (simp add: whole finally_keeps R)
  have d: "file_exists (fs (snd (merge_videos e ps uid w))) ?m = file_exists f2 ?m"
    using c list_merged_distinct [of e uid "uuids w"] by blast
  from a b c d show ?thesis by blast
qed


text \<open>
  Claim C5, as amended.  The concatenation stage runs (the directory is made, the manifest
  opened, the tool started on the file system that holds the manifest) and the tool exits
  non-zero.  Then the pipeline call raises; the concatenation is the only process the call
  has started, so the watermark stage is never invoked; and apart from the manifest the
  files on disk are those the tool left: an intermediate merged file that the failed
  concatenation produced is still there when the call returns.
\<close>

theorem merge_videos_concat_failure:
  assumes mk: "\<not> fails e (Mkdir (user_dir_of uid))"
    and op: "\<not> fails e (Open_w (list_file_of e uid (uuids w)))"
    and ex: "\<not> fails e (Exec (merge_cmd (list_file_of e uid (uuids w)) (merged_path_of e uid (uuids w))))"
    and tool: "ffmpeg e (merge_cmd (list_file_of e uid (uuids w)) (merged_path_of e uid (uuids w)))
                 (fs_write (fs w) (list_file_of e uid (uuids w)) (concat (map (manifest_line e) ps)))
               = (returncode, err, f2)"
    and rc: "returncode \<noteq> 0"
  shows "(\<exists>x. fst (merge_videos e ps uid w) = Inl x)
       \<and> filter is_exec (trace (snd (merge_videos e ps uid w)))
           = filter is_exec (trace w)
             @ [Exec (merge_cmd (list_file_of e uid (uuids w)) (merged_path_of e uid (uuids w)))]
       \<and> (\<forall>p. p \<noteq> list_file_of e uid (uuids w) \<longrightarrow>
             file_exists (fs (snd (merge_videos e ps uid w))) p = file_exists f2 p)
       \<and> file_exists (fs (snd (merge_videos e ps uid w))) (merged_path_of e uid (uuids w))
           = file_exists f2 (merged_path_of e uid (uuids w))"
  using assms by (rule concat_failure)

theorem merge_videos_concat_failure_witness:
  "\<not> fails env_partial (Mkdir (user_dir_of 1))
   \<and> \<not> fails env_partial (Open_w (list_file_of env_partial 1 (uuids w0)))
   \<and> \<not> fails env_partial
         (Exec (merge_cmd (list_file_of env_partial 1 (uuids w0)) (merged_path_of env_partial 1 (uuids w0))))
   \<and> fst (ffmpeg env_partial
            (merge_cmd (list_file_of env_partial 1 (uuids w0)) (merged_path_of env_partial 1 (uuids w0)))
            (fs_write (fs w0) (list_file_of env_partial 1 (uuids w0))
               (concat (map (manifest_line env_partial) [''temp/1/a.mp4'', ''temp/1/b.mp4''])))) = 1
   \<and> (1::int) \<noteq> 0
   \<and> filter is_exec (trace (snd (merge_videos env_partial [''temp/1/a.mp4'', ''temp/1/b.mp4''] 1 w0)))
       = filter is_exec (trace w0)
         @ [Exec (merge_cmd (list_file_of env_partial 1 (uuids w0)) (merged_path_of env_partial 1 (uuids w0)))]
   \<and> file_exists (fs (snd (merge_videos env_partial [''temp/1/a.mp4'', ''temp/1/b.mp4''] 1 w0)))
         (merged_path_of env_partial 1 (uuids w0))"
proof -
  let ?l = "list_file_of env_partial 1 (uuids w0)"
  let ?m = "merged_path_of env_partial 1 (uuids w0)"
  let ?F = "fs_write (fs w0) ?l (concat (map (manifest_line env_partial) [''temp/1/a.mp4'', ''temp/1/b.mp4'']))"
  have nf: "\<And>ev. \<not> fails env_partial ev" by (simp add: env_partial_def env_ok_def)
  have tool: "ffmpeg env_partial (merge_cmd ?l ?m) ?F
                = (1, Inr ''Invalid data found'', fs_write ?F ?m ''part'')"
    by (simp add: env_partial_def tool_partial_def merge_cmd_def)
  have rc: "(1::int) \<noteq> 0" by simp
  have left: "file_exists (fs_write ?F ?m ''part'') ?m"
    by (simp add: file_exists_def fs_write_def)
  show ?thesis
    using merge_videos_concat_failure [OF nf nf nf tool rc] nf tool left
    by simp
qed

theorem merge_videos_concat_failure_counterexample:
  "fst (tool_partial (merge_cmd ''temp/1/list_id2.txt'' ''temp/1/merged_id3.mp4'')
          (fs_write (fs w0) ''temp/1/list_id2.txt''
             (concat (map (manifest_line env_partial) [''temp/1/a.mp4'', ''temp/1/b.mp4'']))))
     \<noteq> 0
   \<and> file_exists (fs (snd (merge_videos env_partial [''temp/1/a.mp4'', ''temp/1/b.mp4''] 1 w0)))
         ''temp/1/merged_id3.mp4''"
proof -
  let ?l = "list_file_of env_partial 1 (uuids w0)"
  let ?m = "merged_path_of env_partial 1 (uuids w0)"
  let ?F = "fs_write (fs w0) ?l (concat (map (manifest_line env_partial) [''temp/1/a.mp4'', ''temp/1/b.mp4'']))"
  have l: "?l = ''temp/1/list_id2.txt''"
    by (simp add: list_file_of_def user_dir_of_def TEMP_DIR_def str_int_1 env_partial_def env_ok_def
        w0_def str_nat_digit digit_char_def)
  have m: "?m = ''temp/1/merged_id3.mp4''"
    by (simp add: merged_path_of_def user_dir_of_def TEMP_DIR_def str_int_1 env_partial_def env_ok_def
        w0_def str_nat_digit digit_char_def)
  have nf: "\<And>ev. \<not> fails env_partial ev" by (simp add: env_partial_def env_ok_def)
  have tool: "ffmpeg env_partial (merge_cmd ?l ?m) ?F
                = (1, Inr ''Invalid data found'', fs_write ?F ?m ''part'')"
    by (simp add: env_partial_def tool_partial_def merge_cmd_def)
  have rc: "(1::int) \<noteq> 0" by simp
  have left: "file_exists (fs_write ?F ?m ''part'') ?m"
    by (simp add: file_exists_def fs_write_def)
  have "file_exists (fs (snd (merge_videos env_partial [''temp/1/a.mp4'', ''temp/1/b.mp4''] 1 w0))) ?m"
    using concat_failure [OF nf nf nf tool rc] left by simp
  then have "file_exists (fs (snd (merge_videos env_partial [''temp/1/a.mp4'', ''temp/1/b.mp4''] 1 w0)))
         ''temp/1/merged_id3.mp4''"
    unfolding m .
  then show ?thesis by (simp add: tool_partial_def)
qed

section \<open>The watermark filter\<close>

lemma position_coords_cases:
  "position_coords position \<in>
     {''x=(w-text_w)/2:y=(h-text_h)/2'', ''x=(w-text_w)/2:y=h-th-10'', ''x=w-tw-10:y=h-th-10'',
      ''x=10:y=10'', ''x=w-tw-10:y=10''}"
  by (simp add: position_coords_def position_map_def)

lemma filter_text_eq:
  "filter_text position =
     drawtext_op WATERMARK_TEXT (position_coords position) @ '', ''
     @ drawtext_op EMAIL_TEXT ''x=(w-text_w)/2:y=10''"
  by (simp add: filter_text_def drawtext_op_def FONT_PATH_def FONT_COLOR_def FONT_SIZE_def str_nat_20)

lemma two_draws:
  assumes "c \<in> {''x=(w-text_w)/2:y=(h-text_h)/2'', ''x=(w-text_w)/2:y=h-th-10'', ''x=w-tw-10:y=h-th-10'',
      ''x=10:y=10'', ''x=w-tw-10:y=10''}"
  shows "occurrences ''drawtext=''
           (drawtext_op WATERMARK_TEXT c @ '', '' @ drawtext_op EMAIL_TEXT ''x=(w-text_w)/2:y=10'') = 2"
  using assms
  by (auto simp add: drawtext_op_def WATERMARK_TEXT_def EMAIL_TEXT_def)

lemma exec_apply_watermark:
  "filter is_exec (trace (snd (apply_watermark e position input_path output_path w)))
     = filter is_exec (trace w) @ [Exec (watermark_cmd position input_path output_path)]"
  by (simp add: apply_watermark_def apply_watermark_try_def run_process_def act_eq
      prod.case_eq_if split: sum.splits)

text \<open>
  Claim C8, as amended.  The lookup table has the keys center, bottom, bottom-right,
  top-left and top-right, where bottom is the bottom centre; every other configured value
  gets the bottom-right coordinates.  The filter is one string holding exactly two
  text-draw operations: the watermark text at the coordinates of the configured anchor,
  and the e-mail text centred at the top, both in the fixed font, colour and size and with
  the fixed shadow offset.  apply_watermark starts the tool once, with this filter as its
  single video filter; the configured anchor is bottom-right.
\<close>

theorem watermark_filter:
  "map fst position_map = [''center'', ''bottom'', ''bottom-right'', ''top-left'', ''top-right'']
   \<and> position_coords ''center'' = ''x=(w-text_w)/2:y=(h-text_h)/2''
   \<and> position_coords ''bottom'' = ''x=(w-text_w)/2:y=h-th-10''
   \<and> position_coords ''bottom-right'' = ''x=w-tw-10:y=h-th-10''
   \<and> position_coords ''top-left'' = ''x=10:y=10''
   \<and> position_coords ''top-right'' = ''x=w-tw-10:y=10''
   \<and> (position \<notin> set (map fst position_map) \<longrightarrow> position_coords position = ''x=w-tw-10:y=h-th-10'')
   \<and> filter_text position =
        drawtext_op WATERMARK_TEXT (position_coords position) @ '', ''
        @ drawtext_op EMAIL_TEXT ''x=(w-text_w)/2:y=10''
   \<and> occurrences ''drawtext='' (filter_text position) = 2
   \<and> filter is_exec (trace (snd (apply_watermark e position input_path output_path w)))
       = filter is_exec (trace w)
         @ [Exec [''ffmpeg'', ''-i'', input_path, ''-vf'', filter_text position,
                  ''-codec:a'', ''copy'', ''-y'', output_path]]
   \<and> POSITION = ''bottom-right''"
proof (intro conjI impI)
  show "map fst position_map = [''center'', ''bottom'', ''bottom-right'', ''top-left'', ''top-right'']"
    by (simp add: position_map_def)
  show "position_coords ''center'' = ''x=(w-text_w)/2:y=(h-text_h)/2''"
    by (simp add: position_coords_def position_map_def)
  show "position_coords ''bottom'' = ''x=(w-text_w)/2:y=h-th-10''"
    by (simp add: position_coords_def position_map_def)
  show "position_coords ''bottom-right'' = ''x=w-tw-10:y=h-th-10''"
    by (simp add: position_coords_def position_map_def)
  show "position_coords ''top-left'' = ''x=10:y=10''"
    by (simp add: position_coords_def position_map_def)
  show "position_coords ''top-right'' = ''x=w-tw-10:y=10''"
    by (simp add: position_coords_def position_map_def)
  show "position_coords position = ''x=w-tw-10:y=h-th-10''"
    if "position \<notin> set (map fst position_map)"
  proof -
    from that have "map_of position_map position = None"
      by (simp add: map_of_eq_None_iff)
    then show ?thesis by (simp add: position_coords_def)
  qed
  show "filter_text position =
        drawtext_op WATERMARK_TEXT (position_coords position) @ '', ''
        @ drawtext_op EMAIL_TEXT ''x=(w-text_w)/2:y=10''"
    by (rule filter_text_eq)
  show "occurrences ''drawtext='' (filter_text position) = 2"
    unfolding filter_text_eq using position_coords_cases by (rule two_draws)
  show "filter is_exec (trace (snd (apply_watermark e position input_path output_path w)))
       = filter is_exec (trace w)
         @ [Exec [''ffmpeg'', ''-i'', input_path, ''-vf'', filter_text position,
                  ''-codec:a'', ''copy'', ''-y'', output_path]]"
    by (simp add: exec_apply_watermark watermark_cmd_def)
  show "POSITION = ''bottom-right''" by (simp add: POSITION_def)
qed

theorem watermark_filter_witness:
  "''middle'' \<notin> set (map fst position_map)
   \<and> position_coords ''middle'' = ''x=w-tw-10:y=h-th-10''
   \<and> occurrences ''drawtext='' (filter_text ''middle'') = 2"
proof -
  have "''middle'' \<notin> set (map fst position_map)" by (simp add: position_map_def)
  then show ?thesis
    using watermark_filter [of "''middle''"] by blast
qed

theorem watermark_filter_counterexample:
  "''bottom-center'' \<notin> set (map fst position_map)
   \<and> position_coords ''bottom-center'' = ''x=w-tw-10:y=h-th-10''
   \<and> position_coords ''bottom-center'' \<noteq> ''x=(w-text_w)/2:y=h-th-10''"
  by (simp add: position_coords_def position_map_def)

section \<open>Example runs\<close>

text \<open>
  The theorems above are applied to concrete runs: two stored uploads of user 1, a tool
  that works, a tool whose concatenation fails, and a file system that refuses to delete
  the first upload.  The last run shows a merge that succeeds from end to end, empties the
  pending list, and leaves the second upload in the user's directory.
\<close>

lemma last_merge_cmd: "last (merge_cmd l m) = m"
  by (simp add: merge_cmd_def)

lemma last_watermark_cmd: "last (watermark_cmd pos i out) = out"
  by (simp add: watermark_cmd_def)

lemmas run_defs =
  merge_videos_def Let_def mkdir_def act_def list_file_of_def merged_path_of_def
  watermarked_path_of_def user_dir_of_def TEMP_DIR_def str_int_1 merge_videos_try_def
  write_manifest_def run_process_def last_merge_cmd log_info_def log_error_def
  merge_videos_finally_def os_remove_def file_exists_def path_exists_def fs_write_def fs_remove_def
  str_nat_digit digit_char_def apply_watermark_def apply_watermark_try_def last_watermark_cmd
  open_read_def clean_user_videos_def clean_user_videos_try_def glob_star_def in_dir_def
  merge_command_try_def

lemmas example_defs =
  env_ok_def env_partial_def env_locked_def env_keep_def env_offline_def
  tool_ok_def tool_partial_def w0_def uv0_def

lemma partial_run:
  "fst (merge_videos env_partial [''temp/1/a.mp4'', ''temp/1/b.mp4''] 1
          (w0\<lparr>trace := trace w0 @ [Reply_text MSG_MERGING]\<rparr>))
   = Inl (Exception ''Failed to merge videos'')"
  by (simp add: run_defs example_defs)

theorem merge_command_pipeline_failure_witness:
  "uv0 1 = Some [''temp/1/a.mp4'', ''temp/1/b.mp4'']
   \<and> 2 \<le> length [''temp/1/a.mp4'', ''temp/1/b.mp4'']
   \<and> \<not> fails env_partial (Reply_text MSG_MERGING)
   \<and> fst (merge_videos env_partial [''temp/1/a.mp4'', ''temp/1/b.mp4''] 1
          (w0\<lparr>trace := trace w0 @ [Reply_text MSG_MERGING]\<rparr>))
       = Inl (Exception ''Failed to merge videos'')
   \<and> fst (merge_command env_partial 1 uv0 w0) = Inr ()
   \<and> fst (snd (merge_command env_partial 1 uv0 w0)) = uv0
   \<and> filter visible (trace (snd (snd (merge_command env_partial 1 uv0 w0))))
       = [Reply_text MSG_MERGING, Reply_text MSG_MERGE_ERROR]"
proof -
  let ?ps = "[''temp/1/a.mp4'', ''temp/1/b.mp4'']"
  let ?w1 = "w0\<lparr>trace := trace w0 @ [Reply_text MSG_MERGING]\<rparr>"
  have h1: "uv0 1 = Some ?ps" by (simp add: uv0_def)
  have h2: "2 \<le> length ?ps" by simp
  have h3: "\<not> fails env_partial (Reply_text MSG_MERGING)"
    by (simp add: env_partial_def env_ok_def)
  have h4: "merge_videos env_partial ?ps 1 ?w1
             = (Inl (Exception ''Failed to merge videos''), snd (merge_videos env_partial ?ps 1 ?w1))"
    using partial_run by (simp add: prod_eq_iff)
  have t0: "trace w0 = []" by (simp add: w0_def)
  have nf: "\<not> fails env_partial (Reply_text MSG_MERGE_ERROR)"
    by (simp add: env_partial_def env_ok_def)
  show ?thesis
    using merge_command_pipeline_failure
            [where uv = uv0 and user_id = 1 and e = env_partial and w = w0, OF h1 h2 h3 h4]
          h1 h3 partial_run t0 nf
    by simp
qed

lemma ok_run:
  "fst (merge_command_try env_ok 1 uv0 w0) = Inr ()
   \<and> dirs (snd (snd (merge_command_try env_ok 1 uv0 w0))) = [''temp/1'', ''temp'']"
  by (simp add: run_defs example_defs)

theorem merge_command_success_witness:
  "uv0 1 = Some [''temp/1/a.mp4'', ''temp/1/b.mp4'']
   \<and> 2 \<le> length [''temp/1/a.mp4'', ''temp/1/b.mp4'']
   \<and> fst (merge_command_try env_ok 1 uv0 w0) = Inr ()
   \<and> (\<forall>p. \<not> fails env_ok (Remove p))
   \<and> ''temp/1/watermarked_id4.mp4'' \<notin> set (dirs (snd (snd (merge_command_try env_ok 1 uv0 w0))))
   \<and> ''temp/1/a.mp4'' \<notin> set (dirs (snd (snd (merge_command_try env_ok 1 uv0 w0))))
   \<and> ''temp/1/b.mp4'' \<notin> set (dirs (snd (snd (merge_command_try env_ok 1 uv0 w0))))
   \<and> fst (merge_command env_ok 1 uv0 w0) = Inr ()
   \<and> fst (snd (merge_command env_ok 1 uv0 w0)) 1 = Some []
   \<and> \<not> file_exists (fs (snd (snd (merge_command env_ok 1 uv0 w0)))) ''temp/1/a.mp4''
   \<and> \<not> file_exists (fs (snd (snd (merge_command env_ok 1 uv0 w0)))) ''temp/1/b.mp4''
   \<and> \<not> file_exists (fs (snd (snd (merge_command env_ok 1 uv0 w0)))) ''temp/1/watermarked_id4.mp4''
   \<and> \<not> file_exists (fs (snd (snd (merge_command env_ok 1 uv0 w0)))) ''temp/1/merged_id3.mp4''"
proof -
  let ?ps = "[''temp/1/a.mp4'', ''temp/1/b.mp4'']"
  let ?T = "merge_command_try env_ok 1 uv0 w0"
  have h1: "uv0 1 = Some ?ps" by (simp add: uv0_def)
  have h2: "2 \<le> length ?ps" by simp
  have h3: "?T = (Inr (), fst (snd ?T), snd (snd ?T))"
    using ok_run by (simp add: prod_eq_iff)
  have nf: "\<forall>p. \<not> fails env_ok (Remove p)" by (simp add: env_ok_def)
  have rp: "watermarked_path_of env_ok 1 (uuids w0) = ''temp/1/watermarked_id4.mp4''"
    by (simp add: watermarked_path_of_def user_dir_of_def TEMP_DIR_def str_int_1 env_ok_def w0_def
        str_nat_digit digit_char_def)
  have nd: "\<forall>p \<in> insert ''temp/1/watermarked_id4.mp4'' (set ?ps). p \<notin> set (dirs (snd (snd ?T)))"
    using ok_run by simp
  have ind: "in_dir (user_dir_of 1) ''temp/1/merged_id3.mp4''"
    by (simp add: in_dir_def user_dir_of_def TEMP_DIR_def str_int_1)
  show ?thesis
    using merge_command_success [OF h1 h2 h3] h1 nf ok_run nd ind
    unfolding rp
    by auto
qed

theorem merge_command_success_counterexample:
  "fst (merge_command_try env_locked 1 uv0 w0) = Inr ()
   \<and> fst (merge_command env_locked 1 uv0 w0) = Inr ()
   \<and> fst (snd (merge_command env_locked 1 uv0 w0)) 1 = Some []
   \<and> in_dir (user_dir_of 1) ''temp/1/b.mp4''
   \<and> file_exists (fs (snd (snd (merge_command env_locked 1 uv0 w0)))) ''temp/1/b.mp4''"
  by (simp add: merge_command_def run_defs example_defs)


lemma finally_refused:
  "fails e (Remove l) \<Longrightarrow> file_exists (fs (snd rw)) l \<Longrightarrow>
   merge_videos_finally e l rw
     = (Inl (Exception (errmsg e (Remove l))), (snd rw)\<lparr>trace := trace (snd rw) @ [Remove l]\<rparr>)"
  by (cases rw) (simp add: merge_videos_finally_def path_exists_def os_remove_refused)

lemma keep_try:
  "map fst (fs (snd (merge_videos_try env_keep [''temp/1/a.mp4'', ''temp/1/b.mp4''] 1
      ''temp/1/list_id2.txt'' ''temp/1/merged_id3.mp4'' ''temp/1/watermarked_id4.mp4''
      (w0\<lparr>trace := trace w0 @ [Mkdir ''temp/1''], uuids := 5\<rparr>))))
   = [''temp/1/watermarked_id4.mp4'', ''temp/1/merged_id3.mp4'', ''temp/1/list_id2.txt'',
      ''temp/1/a.mp4'', ''temp/1/b.mp4'']"
  by (simp add: run_defs example_defs)

text \<open>
  A run in which the tool works and the file system refuses every deletion: the pipeline
  call returns, by raising the refusal, and the manifest is still on disk.
\<close>

theorem manifest_written_and_removed_counterexample:
  "fst (merge_videos env_keep [''temp/1/a.mp4'', ''temp/1/b.mp4''] 1 w0) = Inl (Exception ''refused'')
   \<and> file_exists (fs (snd (merge_videos env_keep [''temp/1/a.mp4'', ''temp/1/b.mp4''] 1 w0)))
         ''temp/1/list_id2.txt''"
proof -
  let ?ps = "[''temp/1/a.mp4'', ''temp/1/b.mp4'']"
  let ?T = "merge_videos_try env_keep ?ps 1
      ''temp/1/list_id2.txt'' ''temp/1/merged_id3.mp4'' ''temp/1/watermarked_id4.mp4''
      (w0\<lparr>trace := trace w0 @ [Mkdir ''temp/1''], uuids := 5\<rparr>)"
  define R where "R = (case ?T of
                   (Inl x, w3) \<Rightarrow> (Inl x, log_error (''Error in merge_videos: '' @ str_exn x) w3)
                 | (Inr p, w3) \<Rightarrow> (Inr p, w3))"
  have whole: "merge_videos env_keep ?ps 1 w0 = merge_videos_finally env_keep ''temp/1/list_id2.txt'' R"
    by (simp add: merge_videos_def mkdir_eq Let_def R_def list_file_of_def merged_path_of_def
        watermarked_path_of_def user_dir_of_def TEMP_DIR_def str_int_1 str_nat_digit digit_char_def
        env_keep_def env_ok_def w0_def)
  have "fs (snd R) = fs (snd ?T)"
    by (simp add: R_def prod.case_eq_if split: sum.splits)
  then have there: "file_exists (fs (snd R)) ''temp/1/list_id2.txt''"
    using keep_try by (simp add: file_exists_def)
  have f: "fails env_keep (Remove ''temp/1/list_id2.txt'')"
    "errmsg env_keep (Remove ''temp/1/list_id2.txt'') = ''refused''"
    by (simp_all add: env_keep_def env_ok_def)
  show ?thesis
    using finally_refused [OF f(1) there] f(2) there by (simp add: whole)
qed


end
